theory Spec2Isabelle
  imports Complex_Main
begin

section \<open>Python values, exceptions and the outside world\<close>

text \<open>
  The server is a Python program over dynamically typed values. A value is modelled by
  \<open>pyobj\<close>: the JSON-like built-ins, \<open>datetime\<close> (carrying its \<open>isoformat()\<close> text) and
  a general object. A dictionary is an association list in insertion order. Floats are
  modelled by exact reals (rounding, NaN and infinities are outside the model).

  \<open>PObject ty md dm attrs\<close> is any other object, described by what
  \<open>convert_to_dict\<close> can observe of it:
  \<^item> \<open>ty\<close>: the text of \<open>str(type(obj))\<close>;
  \<^item> \<open>md\<close>: \<open>None\<close> when the object has no \<open>model_dump\<close> attribute, otherwise the
    outcomes of \<open>model_dump(mode='json')\<close> and of \<open>model_dump()\<close>, each \<open>None\<close> when the
    call raises;
  \<^item> \<open>dm\<close>: \<open>None\<close> when the object has no callable \<open>dict\<close> attribute, otherwise the
    outcome of \<open>obj.dict()\<close> (\<open>None\<close> when it raises);
  \<^item> \<open>attrs\<close>: the object's \<open>__dict__\<close>, when it has one.
\<close>

datatype exn_class =
  ValueError | KeyError | TypeError | AttributeError | JSONDecodeError | RuntimeError

datatype exn = Exn exn_class string

fun exn_str :: "exn \<Rightarrow> string" where
  "exn_str (Exn c m) = m"

fun exn_cls :: "exn \<Rightarrow> exn_class" where
  "exn_cls (Exn c m) = c"

datatype pyobj =
    PNone
  | PBool bool
  | PInt int
  | PFloat real
  | PStr string
  | PDatetime string
  | PDict "(pyobj \<times> pyobj) list"
  | PList "pyobj list"
  | PTuple "pyobj list"
  | PSet "pyobj list"
  | PObject string "(pyobj option \<times> pyobj option) option" "pyobj option option"
      "(string \<times> pyobj) list option"

text \<open>Python truthiness (\<open>if v:\<close>, \<open>not v\<close>, \<open>all([...])\<close>).\<close>

fun truthy :: "pyobj \<Rightarrow> bool" where
  "truthy PNone = False"
| "truthy (PBool b) = b"
| "truthy (PInt i) = (i \<noteq> 0)"
| "truthy (PFloat r) = (r \<noteq> 0)"
| "truthy (PStr s) = (s \<noteq> [])"
| "truthy (PDatetime s) = True"
| "truthy (PDict kvs) = (kvs \<noteq> [])"
| "truthy (PList xs) = (xs \<noteq> [])"
| "truthy (PTuple xs) = (xs \<noteq> [])"
| "truthy (PSet xs) = (xs \<noteq> [])"
| "truthy (PObject ty md dm attrs) = True"

text \<open>The text of \<open>type(v)\<close>.\<close>

fun py_type_str :: "pyobj \<Rightarrow> string" where
  "py_type_str PNone = ''<class 'NoneType'>''"
| "py_type_str (PBool b) = ''<class 'bool'>''"
| "py_type_str (PInt i) = ''<class 'int'>''"
| "py_type_str (PFloat r) = ''<class 'float'>''"
| "py_type_str (PStr s) = ''<class 'str'>''"
| "py_type_str (PDatetime s) = ''<class 'datetime.datetime'>''"
| "py_type_str (PDict kvs) = ''<class 'dict'>''"
| "py_type_str (PList xs) = ''<class 'list'>''"
| "py_type_str (PTuple xs) = ''<class 'tuple'>''"
| "py_type_str (PSet xs) = ''<class 'set'>''"
| "py_type_str (PObject ty md dm attrs) = ty"

subsection \<open>Dictionaries\<close>

text \<open>\<open>d[k] = v\<close> on an insertion-ordered dictionary: an existing key keeps its place.\<close>

fun dict_set :: "('k \<times> 'v) list \<Rightarrow> 'k \<Rightarrow> 'v \<Rightarrow> ('k \<times> 'v) list" where
  "dict_set [] k v = [(k, v)]"
| "dict_set ((k', v') # kvs) k v =
     (if k' = k then (k, v) # kvs else (k', v') # dict_set kvs k v)"

text \<open>\<open>d.get(k)\<close> and \<open>d.get(k, dflt)\<close> on the items of a dictionary.\<close>

definition get_or :: "(pyobj \<times> pyobj) list \<Rightarrow> string \<Rightarrow> pyobj \<Rightarrow> pyobj" where
  "get_or kvs k dflt = (case map_of kvs (PStr k) of None \<Rightarrow> dflt | Some v \<Rightarrow> v)"

definition get :: "(pyobj \<times> pyobj) list \<Rightarrow> string \<Rightarrow> pyobj" where
  "get kvs k = get_or kvs k PNone"

text \<open>
  \<open>v.get(...)\<close> needs \<open>v\<close> to be a dictionary; on every other value of the model the
  attribute lookup raises \<open>AttributeError\<close>. The library's message names the type of
  \<open>v\<close>; only the class of the exception is modelled, with one wording for every type.
\<close>

definition as_dict :: "pyobj \<Rightarrow> exn + (pyobj \<times> pyobj) list" where
  "as_dict v = (case v of PDict kvs \<Rightarrow> Inr kvs
     | _ \<Rightarrow> Inl (Exn AttributeError ''object has no attribute get''))"

text \<open>
  \<open>v[k]\<close> with a string key: \<open>KeyError\<close> (whose text is the quoted key) on a dictionary
  without the key, \<open>TypeError\<close> on every other value. The library's wording of the
  \<open>TypeError\<close> differs for each type; only its class is modelled.
\<close>

definition subscript :: "pyobj \<Rightarrow> string \<Rightarrow> exn + pyobj" where
  "subscript v k = (case v of
       PDict kvs \<Rightarrow> (case map_of kvs (PStr k) of
           None \<Rightarrow> Inl (Exn KeyError ([CHR 0x27] @ k @ [CHR 0x27]))
         | Some x \<Rightarrow> Inr x)
     | _ \<Rightarrow> Inl (Exn TypeError ''indices must be integers or object is not subscriptable''))"

text \<open>\<open>for x in v\<close>: the elements a loop over \<open>v\<close> visits.\<close>

definition iterate :: "pyobj \<Rightarrow> exn + pyobj list" where
  "iterate v = (case v of
       PList xs \<Rightarrow> Inr xs
     | PTuple xs \<Rightarrow> Inr xs
     | PSet xs \<Rightarrow> Inr xs
     | PDict kvs \<Rightarrow> Inr (map fst kvs)
     | PStr s \<Rightarrow> Inr (map (\<lambda>c. PStr [c]) s)
     | _ \<Rightarrow> Inl (Exn TypeError ''object is not iterable''))"

text \<open>A comprehension stops at the first element that raises.\<close>

fun collect :: "(exn + 'a) list \<Rightarrow> exn + 'a list" where
  "collect [] = Inr []"
| "collect (Inl e # rs) = Inl e"
| "collect (Inr v # rs) = (case collect rs of Inl e \<Rightarrow> Inl e | Inr vs \<Rightarrow> Inr (v # vs))"

text \<open>Sequencing of steps that may raise: the first exception ends the sequence.\<close>

fun and_then :: "exn + 'a \<Rightarrow> ('a \<Rightarrow> exn + 'b) \<Rightarrow> exn + 'b" where
  "and_then (Inl e) f = Inl e"
| "and_then (Inr x) f = f x"

subsection \<open>Strings\<close>

fun contains :: "string \<Rightarrow> string \<Rightarrow> bool" where
  "contains sub [] = (sub = [])"
| "contains sub (c # cs) = (take (length sub) (c # cs) = sub \<or> contains sub cs)"

definition startswith :: "string \<Rightarrow> string \<Rightarrow> bool" where
  "startswith s p = (take (length p) s = p)"

text \<open>
  \<open>str.strip()\<close> without an argument removes the characters for which \<open>str.isspace\<close>
  holds. Among the code points below 256, which are the characters of \<^typ>\<open>char\<close>, these
  are the space, \<open>\t\<close>, \<open>\n\<close>, \<open>\x0b\<close>, \<open>\x0c\<close>, \<open>\r\<close>, the separators
  \<open>\x1c\<close> to \<open>\x1f\<close>, \<open>\x85\<close> and \<open>\xa0\<close>.
\<close>

definition is_space :: "char \<Rightarrow> bool" where
  "is_space c = (c \<in> set [CHR '' '', CHR 0x09, CHR 0x0A, CHR 0x0B, CHR 0x0C, CHR 0x0D,
                           CHR 0x1C, CHR 0x1D, CHR 0x1E, CHR 0x1F, CHR 0x85, CHR 0xA0])"

definition strip :: "string \<Rightarrow> string" where
  "strip s = rev (dropWhile is_space (rev (dropWhile is_space s)))"

subsection \<open>The vendor and the Python run-time as parameters\<close>

text \<open>
  Every call that leaves the repository is recorded in a trace of \<open>api_call\<close>s. What the
  vendor answers is a parameter: a function of the calls made so far and of the call.
\<close>

datatype api_call =
    GetShapeItem pyobj pyobj
  | GetFrameItem pyobj pyobj
  | GetItems pyobj
  | CreateShapeItem pyobj pyobj
  | UpdateShapeItem pyobj pyobj pyobj
  | DeleteShapeItem pyobj pyobj
  | CreateFrameItem pyobj pyobj
  | UpdateItemPositionOrParent pyobj pyobj pyobj
  | DeleteFrameItem pyobj pyobj
  | HttpGet string string
  | AuthUrl "string option" "string option" string
  | ExchangeCode pyobj

text \<open>
  \<open>pyenv\<close> collects what the program takes from outside its own code:
  \<^item> \<open>str_impl\<close>: Python's \<open>str()\<close> on a value that is not a string (\<open>None\<close> when
    \<open>__str__\<close> raises);
  \<^item> \<open>float_impl\<close>: Python's \<open>float()\<close> on a string (\<open>None\<close> when it raises
    \<open>ValueError\<close>);
  \<^item> \<open>json_text\<close>: the text \<open>json.dumps(v, indent=2)\<close> writes for a serializable value;
  \<^item> \<open>vendor\<close>: the result of an SDK or HTTP call, given the calls made before it
    (\<open>HttpGet url authorization\<close> is \<open>requests.get\<close> followed by \<open>raise_for_status()\<close>
    and \<open>json()\<close>; \<open>AuthUrl\<close> reads the \<open>auth_url\<close> of a handle built from client id,
    secret and redirect URL);
  \<^item> \<open>exchange_impl\<close>: the access and refresh token the SDK handle holds after
    \<open>exchange_code_for_access_token(code)\<close>, or the exception it raises.
\<close>

record pyenv =
  str_impl :: "pyobj \<Rightarrow> string option"
  float_impl :: "string \<Rightarrow> real option"
  json_text :: "pyobj \<Rightarrow> string"
  vendor :: "api_call list \<Rightarrow> api_call \<Rightarrow> exn + pyobj"
  exchange_impl :: "api_call list \<Rightarrow> pyobj \<Rightarrow> exn + (string option \<times> string option)"

text \<open>\<open>str(v)\<close>: a string is its own text, everything else asks the run-time.\<close>

definition py_str :: "pyenv \<Rightarrow> pyobj \<Rightarrow> exn + string" where
  "py_str env v = (case v of
       PStr s \<Rightarrow> Inr s
     | _ \<Rightarrow> (case str_impl env v of
           Some s \<Rightarrow> Inr s
         | None \<Rightarrow> Inl (Exn RuntimeError ''__str__ failed'')))"

text \<open>An f-string: literal pieces and formatted values, left to right.\<close>

datatype fpart = Lit string | Val pyobj

fun fstr :: "pyenv \<Rightarrow> fpart list \<Rightarrow> exn + string" where
  "fstr env [] = Inr []"
| "fstr env (Lit s # ps) = (case fstr env ps of Inl e \<Rightarrow> Inl e | Inr t \<Rightarrow> Inr (s @ t))"
| "fstr env (Val v # ps) = (case py_str env v of
       Inl e \<Rightarrow> Inl e
     | Inr s \<Rightarrow> (case fstr env ps of Inl e \<Rightarrow> Inl e | Inr t \<Rightarrow> Inr (s @ t)))"

text \<open>\<open>float(v)\<close>.\<close>

definition to_float :: "pyenv \<Rightarrow> pyobj \<Rightarrow> exn + real" where
  "to_float env v = (case v of
       PInt i \<Rightarrow> Inr (of_int i)
     | PFloat r \<Rightarrow> Inr r
     | PBool b \<Rightarrow> Inr (if b then 1 else 0)
     | PStr s \<Rightarrow> (case float_impl env s of
           Some r \<Rightarrow> Inr r
         | None \<Rightarrow> Inl (Exn ValueError ''could not convert string to float''))
     | _ \<Rightarrow> Inl (Exn TypeError ''float() argument must be a string or a real number''))"

subsection \<open>What \<open>json.dumps\<close> accepts\<close>

text \<open>
  The default encoder of the standard library writes \<open>None\<close>, booleans, numbers, strings,
  lists and tuples of such values, and dictionaries whose keys are strings, numbers,
  booleans or \<open>None\<close>; on anything else it raises \<open>TypeError\<close>.
\<close>

fun json_key :: "pyobj \<Rightarrow> bool" where
  "json_key PNone = True"
| "json_key (PBool b) = True"
| "json_key (PInt i) = True"
| "json_key (PFloat r) = True"
| "json_key (PStr s) = True"
| "json_key v = False"

fun json_serializable :: "pyobj \<Rightarrow> bool" where
  "json_serializable PNone = True"
| "json_serializable (PBool b) = True"
| "json_serializable (PInt i) = True"
| "json_serializable (PFloat r) = True"
| "json_serializable (PStr s) = True"
| "json_serializable (PList xs) = list_all json_serializable xs"
| "json_serializable (PTuple xs) = list_all json_serializable xs"
| "json_serializable (PDict kvs) =
     list_all (\<lambda>(k, v). json_key k \<and> json_serializable v) kvs"
| "json_serializable (PDatetime s) = False"
| "json_serializable (PSet xs) = False"
| "json_serializable (PObject ty md dm attrs) = False"

definition json_dumps :: "pyenv \<Rightarrow> pyobj \<Rightarrow> exn + string" where
  "json_dumps env v =
     (if json_serializable v then Inr (json_text env v)
      else Inl (Exn TypeError ''Object is not JSON serializable''))"

section \<open>The serializer: \<open>convert_to_dict\<close> (miro\_client.py)\<close>

text \<open>
  The outcome of the two nested \<open>try\<close> blocks around \<open>model_dump\<close>, and of the one around
  \<open>dict()\<close>: the value returned, or \<open>None\<close> when control falls through.
\<close>

definition model_dump_result :: "(pyobj option \<times> pyobj option) option \<Rightarrow> pyobj option" where
  "model_dump_result md = (case md of
       None \<Rightarrow> None
     | Some (as_json, plain) \<Rightarrow> (case as_json of Some r \<Rightarrow> Some r | None \<Rightarrow> plain))"

definition dict_result :: "pyobj option option \<Rightarrow> pyobj option" where
  "dict_result dm = (case dm of None \<Rightarrow> None | Some r \<Rightarrow> r)"

definition public_attr :: "string \<Rightarrow> bool" where
  "public_attr k = (\<not> startswith k ''_'' \<or> k = ''__class__'')"

text \<open>
  The branches are tried in the order of the source. The built-in values have none of the
  attributes \<open>model_dump\<close>, \<open>dict\<close> and \<open>__dict__\<close>, and the text of their type does not
  contain \<open>typing\<close>, so each of them reaches its own \<open>isinstance\<close> branch; an object is
  taken not to be an instance of a built-in type.
\<close>

fun convert_to_dict :: "pyenv \<Rightarrow> pyobj \<Rightarrow> exn + pyobj" where
  "convert_to_dict env PNone = Inr PNone"
| "convert_to_dict env (PObject ty md dm attrs) =
     (if contains ''typing'' ty then
        (case py_str env (PObject ty md dm attrs) of Inl e \<Rightarrow> Inl e | Inr s \<Rightarrow> Inr (PStr s))
      else case model_dump_result md of
        Some r \<Rightarrow> Inr r
      | None \<Rightarrow> (case dict_result dm of
          Some r \<Rightarrow> Inr r
        | None \<Rightarrow> (case attrs of
            Some kvs \<Rightarrow>
              Inr (PDict (concat (map (\<lambda>(k, v).
                if public_attr k then
                  (case convert_to_dict env v of
                     Inr w \<Rightarrow> [(PStr k, w)]
                   | Inl e \<Rightarrow> (case py_str env v of
                       Inr s \<Rightarrow> [(PStr k, PStr s)]
                     | Inl e' \<Rightarrow> []))
                else []) kvs)))
          | None \<Rightarrow> (case py_str env (PObject ty md dm attrs) of
              Inr s \<Rightarrow> Inr (PStr s)
            | Inl e \<Rightarrow> Inr PNone))))"
| "convert_to_dict env (PBool b) = Inr (PBool b)"
| "convert_to_dict env (PInt i) = Inr (PInt i)"
| "convert_to_dict env (PFloat r) = Inr (PFloat r)"
| "convert_to_dict env (PStr s) = Inr (PStr s)"
| "convert_to_dict env (PDatetime t) = Inr (PStr t)"
| "convert_to_dict env (PDict kvs) =
     (case collect (map (\<lambda>(k, v).
        case convert_to_dict env v of Inl e \<Rightarrow> Inl e | Inr w \<Rightarrow> Inr (k, w)) kvs) of
        Inl e \<Rightarrow> Inl e
      | Inr kws \<Rightarrow> Inr (PDict kws))"
| "convert_to_dict env (PList xs) =
     (case collect (map (convert_to_dict env) xs) of Inl e \<Rightarrow> Inl e | Inr ws \<Rightarrow> Inr (PList ws))"
| "convert_to_dict env (PTuple xs) =
     (case collect (map (convert_to_dict env) xs) of Inl e \<Rightarrow> Inl e | Inr ws \<Rightarrow> Inr (PList ws))"
| "convert_to_dict env (PSet xs) =
     (case collect (map (convert_to_dict env) xs) of Inl e \<Rightarrow> Inl e | Inr ws \<Rightarrow> Inr (PList ws))"

section \<open>The tool registry (tool\_registry.py) and the registrations\<close>

text \<open>
  \<open>TOOLS\<close> is a dictionary from tool name to descriptor. A field specification is a
  dictionary with string keys; \<open>v.get('required', False)\<close> is read for its truth value.
\<close>

type_synonym field_spec = "(pyobj \<times> pyobj) list"

definition required_names :: "(string \<times> field_spec) list \<Rightarrow> string list" where
  "required_names parameters =
     map fst (filter (\<lambda>(k, v). truthy (get_or v ''required'' (PBool False))) parameters)"

definition descriptor :: "string \<Rightarrow> string \<Rightarrow> (string \<times> field_spec) list \<Rightarrow> pyobj" where
  "descriptor name description parameters = PDict
     [(PStr ''name'', PStr name),
      (PStr ''description'', PStr description),
      (PStr ''inputSchema'', PDict
        [(PStr ''type'', PStr ''object''),
         (PStr ''properties'', PDict (map (\<lambda>(k, v). (PStr k, PDict v)) parameters)),
         (PStr ''required'', PList (map PStr (required_names parameters)))])]"

definition register_tool ::
  "string \<Rightarrow> string \<Rightarrow> (string \<times> field_spec) list \<Rightarrow> (string \<times> pyobj) list
     \<Rightarrow> (string \<times> pyobj) list" where
  "register_tool name description parameters tools =
     dict_set tools name (descriptor name description parameters)"

text \<open>Field specifications as the tool modules write them.\<close>

definition plain_field :: "string \<Rightarrow> string \<Rightarrow> field_spec" where
  "plain_field ty description = [(PStr ''type'', PStr ty), (PStr ''description'', PStr description)]"

definition optional_field :: "string \<Rightarrow> string \<Rightarrow> field_spec" where
  "optional_field ty description =
     [(PStr ''type'', PStr ty), (PStr ''description'', PStr description),
      (PStr ''required'', PBool False)]"

definition create_shape_parameters :: "(string \<times> field_spec) list" where
  "create_shape_parameters =
     [(''board_id'', plain_field ''string'' ''The ID of the board''),
      (''shape_type'',
         [(PStr ''type'', PStr ''string''),
          (PStr ''description'',
             PStr ''Type of shape: rectangle, circle, triangle, star, arrow, etc.''),
          (PStr ''enum'', PList (map PStr [''rectangle'', ''circle'', ''triangle'', ''star'',
             ''arrow'', ''rhombus'', ''octagon'', ''hexagon'']))]),
      (''x'', plain_field ''number'' ''X coordinate of the shape position''),
      (''y'', plain_field ''number'' ''Y coordinate of the shape position''),
      (''width'', plain_field ''number'' ''Width of the shape''),
      (''height'', plain_field ''number'' ''Height of the shape''),
      (''fillColor'', optional_field ''string'' ''Fill color in hex format (e.g., #FF0000)''),
      (''borderColor'',
         optional_field ''string'' ''Border color in hex format (e.g., #000000)''),
      (''borderWidth'', optional_field ''number'' ''Border width in pixels''),
      (''content'', optional_field ''string'' ''Text content to display in the shape'')]"

definition update_shape_parameters :: "(string \<times> field_spec) list" where
  "update_shape_parameters =
     [(''board_id'', plain_field ''string'' ''The ID of the board''),
      (''item_id'', plain_field ''string'' ''The ID of the shape item to update''),
      (''x'', optional_field ''number'' ''New X coordinate (optional)''),
      (''y'', optional_field ''number'' ''New Y coordinate (optional)''),
      (''width'', optional_field ''number'' ''New width (optional)''),
      (''height'', optional_field ''number'' ''New height (optional)''),
      (''fillColor'', optional_field ''string'' ''New fill color in hex format (optional)''),
      (''borderColor'',
         optional_field ''string'' ''New border color in hex format (optional)''),
      (''borderWidth'', optional_field ''number'' ''New border width in pixels (optional)''),
      (''content'', optional_field ''string'' ''New text content (optional)'')]"

definition delete_shape_parameters :: "(string \<times> field_spec) list" where
  "delete_shape_parameters =
     [(''board_id'', plain_field ''string'' ''The ID of the board''),
      (''item_id'', plain_field ''string'' ''The ID of the shape item to delete'')]"

definition group_shapes_parameters :: "(string \<times> field_spec) list" where
  "group_shapes_parameters =
     [(''board_id'', plain_field ''string'' ''The ID of the board''),
      (''item_ids'',
         [(PStr ''type'', PStr ''array''),
          (PStr ''items'', PDict [(PStr ''type'', PStr ''string'')]),
          (PStr ''description'', PStr ''List of item IDs to group together'')])]"

definition ungroup_shapes_parameters :: "(string \<times> field_spec) list" where
  "ungroup_shapes_parameters =
     [(''board_id'', plain_field ''string'' ''The ID of the board''),
      (''group_id'', plain_field ''string'' ''The ID of the group/frame to ungroup'')]"

definition exchange_auth_code_parameters :: "(string \<times> field_spec) list" where
  "exchange_auth_code_parameters =
     [(''code'',
         plain_field ''string'' ''The authorization code received from Miro OAuth callback'')]"

definition get_board_parameters :: "(string \<times> field_spec) list" where
  "get_board_parameters = [(''board_id'', plain_field ''string'' ''The ID of the board'')]"

text \<open>
  The registrations run when server.py imports the tool modules, in the order
  shape\_tools, group\_tools, auth\_tools, board\_tools.
\<close>

definition TOOLS :: "(string \<times> pyobj) list" where
  "TOOLS =
     (register_tool ''get_board''
        ''Get information about a Miro board including metadata, name, description, and settings''
        get_board_parameters
     (register_tool ''exchange_auth_code''
        ''Exchange an authorization code for an access token'' exchange_auth_code_parameters
     (register_tool ''get_auth_url''
        ''Get the OAuth 2.0 authorization URL to authenticate with Miro'' []
     (register_tool ''ungroup_shapes''
        ''Ungroup shapes by removing them from a group/frame'' ungroup_shapes_parameters
     (register_tool ''group_shapes''
        ''Group multiple shapes together on a board'' group_shapes_parameters
     (register_tool ''delete_shape''
        ''Delete a shape from a board'' delete_shape_parameters
     (register_tool ''update_shape''
        ''Update properties of an existing shape'' update_shape_parameters
     (register_tool ''create_shape''
        ''Create a shape on a Miro board'' create_shape_parameters []))))))))"

text \<open>The \<open>required\<close> list a descriptor carries in its \<open>inputSchema\<close>.\<close>

definition schema_required :: "pyobj \<Rightarrow> exn + pyobj" where
  "schema_required d = (case subscript d ''inputSchema'' of
       Inl e \<Rightarrow> Inl e
     | Inr s \<Rightarrow> subscript s ''required'')"

section \<open>Configuration (config.py)\<close>

text \<open>
  The three module constants, read from the process environment when config.py is imported.
\<close>

record config =
  MIRO_CLIENT_ID :: "string option"
  MIRO_CLIENT_SECRET :: "string option"
  MIRO_REDIRECT_URL :: string

definition load_config :: "(string \<Rightarrow> string option) \<Rightarrow> config" where
  "load_config getenv =
     \<lparr>MIRO_CLIENT_ID = getenv ''MIRO_CLIENT_ID'',
      MIRO_CLIENT_SECRET = getenv ''MIRO_CLIENT_SECRET'',
      MIRO_REDIRECT_URL = (case getenv ''MIRO_REDIRECT_URL'' of
         None \<Rightarrow> ''http://localhost:8080/callback'' | Some u \<Rightarrow> u)\<rparr>"

text \<open>\<open>not v\<close> for an optional string: \<open>None\<close> and the empty string are false.\<close>

definition unset :: "string option \<Rightarrow> bool" where
  "unset v = (case v of None \<Rightarrow> True | Some s \<Rightarrow> s = [])"

definition validate_config :: "config \<Rightarrow> exn + unit" where
  "validate_config cfg =
     (if unset (MIRO_CLIENT_ID cfg) then
        Inl (Exn ValueError ''MIRO_CLIENT_ID environment variable is required'')
      else if unset (MIRO_CLIENT_SECRET cfg) then
        Inl (Exn ValueError ''MIRO_CLIENT_SECRET environment variable is required'')
      else Inr ())"

section \<open>The client (miro\_client.py)\<close>

subsection \<open>State\<close>

text \<open>
  \<open>miro_handle\<close> is the SDK's OAuth object as the client reads it: its access and refresh
  token, \<open>None\<close> when the attribute is missing or holds \<open>None\<close> (the client treats both
  alike). The stored tokens are Python values: \<open>_load_tokens\<close> assigns whatever the file
  holds.
\<close>

record miro_handle =
  access_token :: "string option"
  refresh_token :: "string option"

record MiroClient =
  client_id :: "string option"
  client_secret :: "string option"
  redirect_url :: string
  miro :: "miro_handle option"
  stored_access_token :: pyobj
  stored_refresh_token :: pyobj

text \<open>
  The token file is absent, or holds text that \<open>json.load\<close> rejects (with the decoder's
  message), or holds the text of a JSON value. \<open>json.dump\<close> followed by \<open>json.load\<close> is
  taken to give the value back: the values written are strings of the SDK handle or values
  read from the file before.
\<close>

datatype token_file = Missing | Garbled string | Holds pyobj

record world =
  token_storage :: token_file
  calls :: "api_call list"

definition call_api :: "pyenv \<Rightarrow> api_call \<Rightarrow> world \<Rightarrow> (exn + pyobj) \<times> world" where
  "call_api env c w = (vendor env (calls w) c, w\<lparr>calls := calls w @ [c]\<rparr>)"

subsection \<open>Token store\<close>

definition forget_tokens :: "MiroClient \<Rightarrow> MiroClient" where
  "forget_tokens c = c\<lparr>stored_access_token := PNone, stored_refresh_token := PNone\<rparr>"

definition load_tokens :: "MiroClient \<Rightarrow> world \<Rightarrow> (exn + unit) \<times> MiroClient \<times> world" where
  "load_tokens c w = (case token_storage w of
       Missing \<Rightarrow> (Inr (), c, w)
     | Garbled m \<Rightarrow> (Inr (), forget_tokens c, w\<lparr>token_storage := Missing\<rparr>)
     | Holds tokens \<Rightarrow> (case subscript tokens ''access_token'' of
           Inl e \<Rightarrow>
             (if exn_cls e = JSONDecodeError \<or> exn_cls e = KeyError
              then (Inr (), forget_tokens c, w\<lparr>token_storage := Missing\<rparr>)
              else (Inl e, c, w))
         | Inr a \<Rightarrow> (case as_dict tokens of
               Inl e \<Rightarrow>
                 (if exn_cls e = JSONDecodeError \<or> exn_cls e = KeyError
                  then (Inr (), forget_tokens c, w\<lparr>token_storage := Missing\<rparr>)
                  else (Inl e, c\<lparr>stored_access_token := a\<rparr>, w))
             | Inr kvs \<Rightarrow>
                 (Inr (), c\<lparr>stored_access_token := a,
                            stored_refresh_token := get kvs ''refresh_token''\<rparr>, w))))"

text \<open>\<open>self._miro and hasattr(self._miro, 'access_token') and self._miro.access_token\<close>.\<close>

definition has_live_token :: "MiroClient \<Rightarrow> bool" where
  "has_live_token c = (case miro c of
       None \<Rightarrow> False
     | Some h \<Rightarrow> (case access_token h of None \<Rightarrow> False | Some t \<Rightarrow> t \<noteq> []))"

definition opt_str :: "string option \<Rightarrow> pyobj" where
  "opt_str v = (case v of None \<Rightarrow> PNone | Some s \<Rightarrow> PStr s)"

text \<open>The pair \<open>_save_tokens\<close> chooses: the live handle's, else the stored one, else none.\<close>

definition tokens_to_save :: "MiroClient \<Rightarrow> pyobj \<times> pyobj" where
  "tokens_to_save c =
     (if has_live_token c then
        (case miro c of
           Some h \<Rightarrow> (opt_str (access_token h), opt_str (refresh_token h))
         | None \<Rightarrow> (PNone, PNone))
      else if truthy (stored_access_token c) then
        (stored_access_token c, stored_refresh_token c)
      else (PNone, PNone))"

text \<open>
  \<open>open(..., 'w')\<close> empties the file before \<open>json.dump\<close> writes: a value the encoder
  rejects leaves unfinished text behind and the exception escapes.
\<close>

definition save_tokens :: "MiroClient \<Rightarrow> world \<Rightarrow> (exn + unit) \<times> MiroClient \<times> world" where
  "save_tokens c w =
     (let (a, r) = tokens_to_save c in
      if truthy a then
        (let tokens = PDict [(PStr ''access_token'', a), (PStr ''refresh_token'', r)] in
         if json_serializable tokens then
           (Inr (), c\<lparr>stored_access_token := a, stored_refresh_token := r\<rparr>,
            w\<lparr>token_storage := Holds tokens\<rparr>)
         else
           (Inl (Exn TypeError ''Object is not JSON serializable''), c,
            w\<lparr>token_storage := Garbled ''unfinished''\<rparr>))
      else (Inr (), c, w))"

subsection \<open>Construction and OAuth\<close>

text \<open>\<open>MiroClient.__init__\<close>: validation, the fields, then the token file.\<close>

definition new_client :: "config \<Rightarrow> world \<Rightarrow> (exn + MiroClient) \<times> world" where
  "new_client cfg w = (case validate_config cfg of
       Inl e \<Rightarrow> (Inl e, w)
     | Inr u \<Rightarrow>
         (let c0 = \<lparr>client_id = MIRO_CLIENT_ID cfg, client_secret = MIRO_CLIENT_SECRET cfg,
                    redirect_url = MIRO_REDIRECT_URL cfg, miro = None,
                    stored_access_token = PNone, stored_refresh_token = PNone\<rparr>
          in case load_tokens c0 w of
               (Inl e, c, w') \<Rightarrow> (Inl e, w')
             | (Inr u', c, w') \<Rightarrow> (Inr c, w')))"

text \<open>
  \<open>get_auth_url\<close> replaces the handle by a fresh one, which holds no token yet, and reads
  its authorization URL.
\<close>

definition get_auth_url ::
  "pyenv \<Rightarrow> MiroClient \<Rightarrow> world \<Rightarrow> (exn + pyobj) \<times> MiroClient \<times> world" where
  "get_auth_url env c w =
     (let c' = c\<lparr>miro := Some \<lparr>access_token = None, refresh_token = None\<rparr>\<rparr>;
          (r, w') = call_api env (AuthUrl (client_id c) (client_secret c) (redirect_url c)) w
      in (r, c', w'))"

definition exchange_code_for_token ::
  "pyenv \<Rightarrow> MiroClient \<Rightarrow> pyobj \<Rightarrow> world \<Rightarrow> (exn + pyobj) \<times> MiroClient \<times> world" where
  "exchange_code_for_token env c code w = (case miro c of
       None \<Rightarrow>
         (Inl (Exn ValueError
            ''Miro instance not initialized. Please call get_auth_url() first to start the OAuth flow.''),
          c, w)
     | Some h \<Rightarrow>
         (let w1 = w\<lparr>calls := calls w @ [ExchangeCode code]\<rparr> in
          case exchange_impl env (calls w) code of
            Inl e \<Rightarrow> (Inl e, c, w1)
          | Inr (a, r) \<Rightarrow>
              (let c1 = c\<lparr>miro := Some (h\<lparr>access_token := a, refresh_token := r\<rparr>)\<rparr> in
               case save_tokens c1 w1 of
                 (Inl e, c2, w2) \<Rightarrow> (Inl e, c2, w2)
               | (Inr u, c2, w2) \<Rightarrow>
                   (Inr (PDict [(PStr ''success'', PBool True),
                      (PStr ''message'', PStr ''Successfully authenticated with Miro'')]),
                    c2, w2))))"

definition is_authenticated :: "MiroClient \<Rightarrow> bool" where
  "is_authenticated c = (has_live_token c \<or> stored_access_token c \<noteq> PNone)"

definition ensure_authenticated :: "MiroClient \<Rightarrow> exn + unit" where
  "ensure_authenticated c =
     (if \<not> is_authenticated c then
        Inl (Exn ValueError (''Not authenticated. Please complete OAuth flow first. '' @
          ''Use get_auth_url() to get authorization URL, then exchange_code_for_token() with the code.''))
      else Inr ())"

text \<open>\<open>_get_api\<close>: the SDK's API object is only handed out for a live handle with a token.\<close>

definition get_api :: "MiroClient \<Rightarrow> exn + unit" where
  "get_api c = (case ensure_authenticated c of
       Inl e \<Rightarrow> Inl e
     | Inr u \<Rightarrow>
         (if \<not> has_live_token c then
            (if truthy (stored_access_token c) then
               Inl (Exn ValueError (''Miro API client requires tokens to be set through OAuth flow. '' @
                 ''Please call get_auth_url() and exchange_code_for_token() to re-authenticate.''))
             else Inl (Exn ValueError ''Not authenticated. Please complete OAuth flow first.''))
          else Inr ()))"

subsection \<open>Shapes\<close>

text \<open>\<open>k in v\<close> for a string \<open>k\<close>.\<close>

definition py_in :: "string \<Rightarrow> pyobj \<Rightarrow> exn + bool" where
  "py_in k v = (case v of
       PDict kvs \<Rightarrow> Inr (map_of kvs (PStr k) \<noteq> None)
     | PList xs \<Rightarrow> Inr (PStr k \<in> set xs)
     | PTuple xs \<Rightarrow> Inr (PStr k \<in> set xs)
     | PSet xs \<Rightarrow> Inr (PStr k \<in> set xs)
     | PStr s \<Rightarrow> Inr (contains k s)
     | _ \<Rightarrow> Inl (Exn TypeError ''argument is not iterable''))"

text \<open>\<open>float(d[k])\<close>.\<close>

definition float_at :: "pyenv \<Rightarrow> pyobj \<Rightarrow> string \<Rightarrow> exn + real" where
  "float_at env d k = (case subscript d k of Inl e \<Rightarrow> Inl e | Inr v \<Rightarrow> to_float env v)"

text \<open>The loop of \<open>_format_style\<close> over the items of \<open>style\<close>, with \<open>style_clean\<close> so far.\<close>

fun format_style_loop ::
  "pyenv \<Rightarrow> (pyobj \<times> pyobj) list \<Rightarrow> (pyobj \<times> pyobj) list \<Rightarrow> exn + (pyobj \<times> pyobj) list" where
  "format_style_loop env [] style_clean = Inr style_clean"
| "format_style_loop env ((key, val) # rest) style_clean =
     (if key = PStr ''fillColor'' then
        (let s1 = dict_set style_clean (PStr ''fill_color'') val;
             s2 = (if map_of s1 (PStr ''fill_opacity'') = None
                   then dict_set s1 (PStr ''fill_opacity'') (PStr ''1.0'') else s1)
         in format_style_loop env rest s2)
      else if key = PStr ''borderColor'' then
        (let s1 = dict_set style_clean (PStr ''border_color'') val;
             s2 = (if map_of s1 (PStr ''border_opacity'') = None
                   then dict_set s1 (PStr ''border_opacity'') (PStr ''1.0'') else s1)
         in format_style_loop env rest s2)
      else if key = PStr ''borderWidth'' then
        (case to_float env val of
           Inl e \<Rightarrow> Inl e
         | Inr r \<Rightarrow> (case py_str env (PFloat r) of
             Inl e \<Rightarrow> Inl e
           | Inr t \<Rightarrow> format_style_loop env rest (dict_set style_clean (PStr ''border_width'') (PStr t))))
      else format_style_loop env rest (dict_set style_clean key val))"

definition format_style :: "pyenv \<Rightarrow> pyobj \<Rightarrow> exn + pyobj" where
  "format_style env style = (case style of
       PDict kvs \<Rightarrow> (case format_style_loop env kvs [] of
           Inl e \<Rightarrow> Inl e | Inr style_clean \<Rightarrow> Inr (PDict style_clean))
     | _ \<Rightarrow> Inl (Exn AttributeError ''object has no attribute items''))"

definition format_shape_data ::
  "pyenv \<Rightarrow> pyobj \<Rightarrow> pyobj \<Rightarrow> pyobj \<Rightarrow> pyobj \<Rightarrow> pyobj \<Rightarrow> exn + pyobj" where
  "format_shape_data env shape_type position geometry style content =
     and_then (float_at env position ''x'') (\<lambda>x.
     and_then (float_at env position ''y'') (\<lambda>y.
     and_then (float_at env geometry ''width'') (\<lambda>width.
     and_then (float_at env geometry ''height'') (\<lambda>height.
       (let data = [(PStr ''shape'', shape_type)] @
                   (if truthy content then [(PStr ''content'', content)] else []);
            shape_data =
              [(PStr ''data'', PDict data),
               (PStr ''position'', PDict [(PStr ''x'', PFloat x), (PStr ''y'', PFloat y)]),
               (PStr ''geometry'',
                  PDict [(PStr ''width'', PFloat width), (PStr ''height'', PFloat height)])]
        in if truthy style then
             and_then (format_style env style) (\<lambda>st.
               Inr (PDict (shape_data @ [(PStr ''style'', st)])))
           else Inr (PDict shape_data))))))"

text \<open>An SDK call whose result is returned through \<open>convert_to_dict\<close>.\<close>

definition call_converted :: "pyenv \<Rightarrow> api_call \<Rightarrow> world \<Rightarrow> (exn + pyobj) \<times> world" where
  "call_converted env c w = (case call_api env c w of
       (Inl e, w') \<Rightarrow> (Inl e, w')
     | (Inr r, w') \<Rightarrow> (convert_to_dict env r, w'))"

definition create_shape ::
  "pyenv \<Rightarrow> MiroClient \<Rightarrow> pyobj \<Rightarrow> pyobj \<Rightarrow> pyobj \<Rightarrow> pyobj \<Rightarrow> pyobj \<Rightarrow> pyobj \<Rightarrow> world
     \<Rightarrow> (exn + pyobj) \<times> world" where
  "create_shape env c board_id shape_type position geometry style content w =
     (case get_api c of
        Inl e \<Rightarrow> (Inl e, w)
      | Inr api \<Rightarrow> (case format_shape_data env shape_type position geometry style content of
          Inl e \<Rightarrow> (Inl e, w)
        | Inr shape_data \<Rightarrow> call_converted env (CreateShapeItem board_id shape_data) w))"

text \<open>The dictionary \<open>update_data\<close> that \<open>update_shape\<close> builds before it calls the SDK.\<close>

definition position_update :: "pyenv \<Rightarrow> pyobj \<Rightarrow> exn + (pyobj \<times> pyobj) list" where
  "position_update env position =
     (if truthy position then
        and_then (py_in ''x'' position) (\<lambda>has_x.
        and_then (if has_x
                  then and_then (float_at env position ''x'') (\<lambda>x. Inr [(PStr ''x'', PFloat x)])
                  else Inr []) (\<lambda>px.
        and_then (py_in ''y'' position) (\<lambda>has_y.
        and_then (if has_y
                  then and_then (float_at env position ''y'') (\<lambda>y. Inr [(PStr ''y'', PFloat y)])
                  else Inr []) (\<lambda>py.
          Inr (if px @ py \<noteq> [] then [(PStr ''position'', PDict (px @ py))] else [])))))
      else Inr [])"

definition geometry_update :: "pyenv \<Rightarrow> pyobj \<Rightarrow> exn + (pyobj \<times> pyobj) list" where
  "geometry_update env geometry =
     (if truthy geometry then
        and_then (float_at env geometry ''width'') (\<lambda>width.
        and_then (float_at env geometry ''height'') (\<lambda>height.
          Inr [(PStr ''geometry'',
                PDict [(PStr ''width'', PFloat width), (PStr ''height'', PFloat height)])]))
      else Inr [])"

definition update_data_of ::
  "pyenv \<Rightarrow> pyobj \<Rightarrow> pyobj \<Rightarrow> pyobj \<Rightarrow> pyobj \<Rightarrow> exn + pyobj" where
  "update_data_of env position geometry style content =
     and_then (position_update env position) (\<lambda>u1.
     and_then (geometry_update env geometry) (\<lambda>u2.
       (let u3 = (if content \<noteq> PNone
                  then [(PStr ''data'', PDict [(PStr ''content'', content)])] else [])
        in if truthy style then
             and_then (format_style env style) (\<lambda>st.
               Inr (PDict (u1 @ u2 @ u3 @ [(PStr ''style'', st)])))
           else Inr (PDict (u1 @ u2 @ u3)))))"

definition update_shape ::
  "pyenv \<Rightarrow> MiroClient \<Rightarrow> pyobj \<Rightarrow> pyobj \<Rightarrow> pyobj \<Rightarrow> pyobj \<Rightarrow> pyobj \<Rightarrow> pyobj \<Rightarrow> world
     \<Rightarrow> (exn + pyobj) \<times> world" where
  "update_shape env c board_id item_id position geometry style content w =
     (case get_api c of
        Inl e \<Rightarrow> (Inl e, w)
      | Inr api \<Rightarrow> (case update_data_of env position geometry style content of
          Inl e \<Rightarrow> (Inl e, w)
        | Inr update_data \<Rightarrow> call_converted env (UpdateShapeItem board_id item_id update_data) w))"

definition delete_shape ::
  "pyenv \<Rightarrow> MiroClient \<Rightarrow> pyobj \<Rightarrow> pyobj \<Rightarrow> world \<Rightarrow> (exn + pyobj) \<times> world" where
  "delete_shape env c board_id item_id w =
     (case get_api c of
        Inl e \<Rightarrow> (Inl e, w)
      | Inr api \<Rightarrow> (case call_api env (DeleteShapeItem board_id item_id) w of
          (Inl e, w') \<Rightarrow> (Inl e, w')
        | (Inr r, w') \<Rightarrow>
            (case fstr env [Lit ''Shape '', Val item_id, Lit '' deleted successfully''] of
               Inl e \<Rightarrow> (Inl e, w')
             | Inr m \<Rightarrow>
                 (Inr (PDict [(PStr ''success'', PBool True), (PStr ''message'', PStr m)]), w'))))"

subsection \<open>Board metadata\<close>

text \<open>The token \<open>get_board\<close> sends: the live handle's, else a stored one that is true.\<close>

definition board_token :: "MiroClient \<Rightarrow> exn + pyobj" where
  "board_token c =
     (if has_live_token c then
        (case miro c of
           Some h \<Rightarrow> Inr (opt_str (access_token h))
         | None \<Rightarrow> Inl (Exn ValueError ''No access token available''))
      else if truthy (stored_access_token c) then Inr (stored_access_token c)
      else Inl (Exn ValueError ''No access token available''))"

definition get_board :: "pyenv \<Rightarrow> MiroClient \<Rightarrow> pyobj \<Rightarrow> world \<Rightarrow> (exn + pyobj) \<times> world" where
  "get_board env c board_id w =
     (case and_then (ensure_authenticated c) (\<lambda>u.
           and_then (fstr env [Lit ''https://api.miro.com/v2/boards/'', Val board_id]) (\<lambda>url.
           and_then (board_token c) (\<lambda>tok.
           and_then (fstr env [Lit ''Bearer '', Val tok]) (\<lambda>authorization.
             Inr (HttpGet url authorization))))) of
        Inl e \<Rightarrow> (Inl e, w)
      | Inr request \<Rightarrow> call_converted env request w)"

subsection \<open>Item lookup\<close>

definition extract_items_list :: "pyenv \<Rightarrow> pyobj \<Rightarrow> exn + pyobj" where
  "extract_items_list env all_items_result =
     and_then (convert_to_dict env all_items_result) (\<lambda>all_items.
       (let unexpected = Inl (Exn ValueError
              (''Unexpected response format from API: '' @ py_type_str all_items_result))
        in case all_items of
             PDict kvs \<Rightarrow> (case map_of kvs (PStr ''data'') of
                 Some d \<Rightarrow> Inr d | None \<Rightarrow> unexpected)
           | PList xs \<Rightarrow> Inr (PList xs)
           | _ \<Rightarrow> unexpected))"

text \<open>The scan \<open>for item in items_list: if str(item.get('id', '')) == item_id_str\<close>.\<close>

fun find_by_id :: "pyenv \<Rightarrow> string \<Rightarrow> pyobj list \<Rightarrow> exn + pyobj option" where
  "find_by_id env item_id_str [] = Inr None"
| "find_by_id env item_id_str (item # rest) =
     and_then (as_dict item) (\<lambda>kvs.
     and_then (py_str env (get_or kvs ''id'' (PStr ''''))) (\<lambda>s.
       if s = item_id_str then Inr (Some item) else find_by_id env item_id_str rest))"

definition scan_for_item ::
  "pyenv \<Rightarrow> pyobj \<Rightarrow> pyobj \<Rightarrow> pyobj \<Rightarrow> exn + pyobj" where
  "scan_for_item env board_id item_id all_items =
     and_then (extract_items_list env all_items) (\<lambda>items_list.
     and_then (py_str env item_id) (\<lambda>item_id_str.
     and_then (iterate items_list) (\<lambda>items.
     and_then (find_by_id env item_id_str items) (\<lambda>found.
       (case found of
          Some item \<Rightarrow> Inr item
        | None \<Rightarrow>
            and_then (fstr env [Lit ''Item '', Val item_id,
                                Lit '' not found on board '', Val board_id])
              (\<lambda>m. Inl (Exn ValueError m)))))))"

text \<open>\<open>_get_item_from_api\<close>: as a shape, then as a frame, then by scanning all items.\<close>

definition get_item_from_api ::
  "pyenv \<Rightarrow> pyobj \<Rightarrow> pyobj \<Rightarrow> world \<Rightarrow> (exn + pyobj) \<times> world" where
  "get_item_from_api env board_id item_id w =
     (case call_api env (GetShapeItem board_id item_id) w of
        (Inr r, w1) \<Rightarrow> (Inr r, w1)
      | (Inl e1, w1) \<Rightarrow>
          (case call_api env (GetFrameItem board_id item_id) w1 of
             (Inr r, w2) \<Rightarrow> (Inr r, w2)
           | (Inl e2, w2) \<Rightarrow>
               (case call_api env (GetItems board_id) w2 of
                  (Inl e, w3) \<Rightarrow> (Inl e, w3)
                | (Inr all_items, w3) \<Rightarrow>
                    (scan_for_item env board_id item_id all_items, w3))))"

subsection \<open>Grouping\<close>

text \<open>
  Coordinates are numbers, as the vendor returns them. On a value that is not a number the
  model stops with \<open>TypeError\<close>, where Python would go on with the ordering and the
  \<open>+\<close> of that value's type.
\<close>

definition num_of :: "pyobj \<Rightarrow> exn + real" where
  "num_of v = (case v of
       PInt i \<Rightarrow> Inr (of_int i)
     | PFloat r \<Rightarrow> Inr r
     | PBool b \<Rightarrow> Inr (if b then 1 else 0)
     | _ \<Rightarrow> Inl (Exn TypeError ''unsupported operand type''))"

definition coordinate :: "pyobj \<Rightarrow> string \<Rightarrow> exn + real" where
  "coordinate d k = and_then (subscript d k) num_of"

fun py_min :: "real list \<Rightarrow> exn + real" where
  "py_min [] = Inl (Exn ValueError ''min() arg is an empty sequence'')"
| "py_min (x # xs) = Inr (fold min xs x)"

fun py_max :: "real list \<Rightarrow> exn + real" where
  "py_max [] = Inl (Exn ValueError ''max() arg is an empty sequence'')"
| "py_max (x # xs) = Inr (fold max xs x)"

text \<open>\<open>d1[k1] + d2[k2]\<close> for each pair of a zipped list.\<close>

definition far_edge :: "string \<Rightarrow> string \<Rightarrow> pyobj \<times> pyobj \<Rightarrow> exn + real" where
  "far_edge k1 k2 pg =
     and_then (coordinate (fst pg) k1) (\<lambda>a.
     and_then (coordinate (snd pg) k2) (\<lambda>b. Inr (a + b)))"

text \<open>
  The bounding-box block of \<open>group_shapes\<close>: from the resolved items to the \<open>frame_data\<close>
  passed to \<open>create_frame_item\<close>.
\<close>

definition frame_data_of :: "pyobj list \<Rightarrow> exn + pyobj" where
  "frame_data_of items =
     and_then (collect (map (\<lambda>item. subscript item ''position'') items)) (\<lambda>positions.
     and_then (collect (map (\<lambda>item. subscript item ''geometry'') items)) (\<lambda>geometries.
     and_then (and_then (collect (map (\<lambda>pos. coordinate pos ''x'') positions)) py_min) (\<lambda>min_x.
     and_then (and_then (collect (map (\<lambda>pos. coordinate pos ''y'') positions)) py_min) (\<lambda>min_y.
     and_then (and_then (collect (map (far_edge ''x'' ''width'') (zip positions geometries)))
                 py_max) (\<lambda>max_x.
     and_then (and_then (collect (map (far_edge ''y'' ''height'') (zip positions geometries)))
                 py_max) (\<lambda>max_y.
       Inr (PDict
         [(PStr ''data'', PDict [(PStr ''title'', PStr ''Group'')]),
          (PStr ''position'', PDict [(PStr ''x'', PFloat min_x), (PStr ''y'', PFloat min_y)]),
          (PStr ''geometry'', PDict [(PStr ''width'', PFloat (max_x - min_x)),
                                     (PStr ''height'', PFloat (max_y - min_y))])])))))))"

text \<open>The first loop of \<open>group_shapes\<close>: look each id up and convert the item.\<close>

fun resolve_items ::
  "pyenv \<Rightarrow> pyobj \<Rightarrow> pyobj list \<Rightarrow> world \<Rightarrow> (exn + pyobj list) \<times> world" where
  "resolve_items env board_id [] w = (Inr [], w)"
| "resolve_items env board_id (item_id # rest) w =
     (case get_item_from_api env board_id item_id w of
        (Inl e, w1) \<Rightarrow> (Inl e, w1)
      | (Inr item, w1) \<Rightarrow>
          (case convert_to_dict env item of
             Inl e \<Rightarrow> (Inl e, w1)
           | Inr d \<Rightarrow>
               (case resolve_items env board_id rest w1 of
                  (Inl e, w2) \<Rightarrow> (Inl e, w2)
                | (Inr ds, w2) \<Rightarrow> (Inr (d # ds), w2))))"

text \<open>The last loop: every input id is given the new parent.\<close>

fun reparent_all ::
  "pyenv \<Rightarrow> pyobj \<Rightarrow> pyobj \<Rightarrow> pyobj list \<Rightarrow> world \<Rightarrow> (exn + unit) \<times> world" where
  "reparent_all env board_id parent [] w = (Inr (), w)"
| "reparent_all env board_id parent (item_id # rest) w =
     (case call_api env (UpdateItemPositionOrParent board_id item_id
                           (PDict [(PStr ''parent'', parent)])) w of
        (Inl e, w1) \<Rightarrow> (Inl e, w1)
      | (Inr r, w1) \<Rightarrow> reparent_all env board_id parent rest w1)"

definition group_shapes ::
  "pyenv \<Rightarrow> MiroClient \<Rightarrow> pyobj \<Rightarrow> pyobj \<Rightarrow> world \<Rightarrow> (exn + pyobj) \<times> world" where
  "group_shapes env c board_id item_ids w =
     (case and_then (get_api c) (\<lambda>api. iterate item_ids) of
        Inl e \<Rightarrow> (Inl e, w)
      | Inr ids \<Rightarrow>
          (case resolve_items env board_id ids w of
             (Inl e, w1) \<Rightarrow> (Inl e, w1)
           | (Inr items, w1) \<Rightarrow>
               (if items = [] then (Inl (Exn ValueError ''No items found to group''), w1)
                else case frame_data_of items of
                  Inl e \<Rightarrow> (Inl e, w1)
                | Inr frame_data \<Rightarrow>
                    (case call_converted env (CreateFrameItem board_id frame_data) w1 of
                       (Inl e, w2) \<Rightarrow> (Inl e, w2)
                     | (Inr frame, w2) \<Rightarrow>
                         (case subscript frame ''id'' of
                            Inl e \<Rightarrow> (Inl e, w2)
                          | Inr frame_id \<Rightarrow>
                              (case reparent_all env board_id
                                      (PDict [(PStr ''id'', frame_id)]) ids w2 of
                                 (Inl e, w3) \<Rightarrow> (Inl e, w3)
                               | (Inr u, w3) \<Rightarrow> (Inr frame, w3)))))))"

subsection \<open>Ungrouping\<close>

text \<open>\<open>next((item for item in items_list if str(item.get('id', '')) == str(group_id)), None)\<close>.\<close>

fun find_frame :: "pyenv \<Rightarrow> pyobj \<Rightarrow> pyobj list \<Rightarrow> exn + pyobj" where
  "find_frame env group_id [] = Inr PNone"
| "find_frame env group_id (item # rest) =
     and_then (as_dict item) (\<lambda>kvs.
     and_then (py_str env (get_or kvs ''id'' (PStr ''''))) (\<lambda>s.
     and_then (py_str env group_id) (\<lambda>g.
       if s = g then Inr item else find_frame env group_id rest)))"

text \<open>\<open>[item for item in items_list if item.get('parent') and item['parent']['id'] == group_id]\<close>.\<close>

fun children_of :: "pyobj \<Rightarrow> pyobj list \<Rightarrow> exn + pyobj list" where
  "children_of group_id [] = Inr []"
| "children_of group_id (item # rest) =
     and_then (as_dict item) (\<lambda>kvs.
     and_then (if truthy (get kvs ''parent'')
               then and_then (subscript item ''parent'') (\<lambda>p.
                    and_then (subscript p ''id'') (\<lambda>i. Inr (i = group_id)))
               else Inr False) (\<lambda>keep.
     and_then (children_of group_id rest) (\<lambda>items.
       Inr (if keep then item # items else items))))"

fun unparent_all :: "pyenv \<Rightarrow> pyobj \<Rightarrow> pyobj list \<Rightarrow> world \<Rightarrow> (exn + unit) \<times> world" where
  "unparent_all env board_id [] w = (Inr (), w)"
| "unparent_all env board_id (item # rest) w =
     (case subscript item ''id'' of
        Inl e \<Rightarrow> (Inl e, w)
      | Inr item_id \<Rightarrow>
          (case call_api env (UpdateItemPositionOrParent board_id item_id
                                (PDict [(PStr ''parent'', PNone)])) w of
             (Inl e, w1) \<Rightarrow> (Inl e, w1)
           | (Inr r, w1) \<Rightarrow> unparent_all env board_id rest w1))"

text \<open>The \<open>try\<close> block that resolves the frame.\<close>

definition lookup_frame ::
  "pyenv \<Rightarrow> pyobj \<Rightarrow> pyobj \<Rightarrow> world \<Rightarrow> (exn + pyobj) \<times> world" where
  "lookup_frame env board_id group_id w =
     (case call_api env (GetFrameItem board_id group_id) w of
        (Inr frame, w1) \<Rightarrow> (Inr frame, w1)
      | (Inl e, w1) \<Rightarrow>
          (if exn_cls e = AttributeError then
             (case call_api env (GetItems board_id) w1 of
                (Inl e', w2) \<Rightarrow> (Inl e', w2)
              | (Inr all_items, w2) \<Rightarrow>
                  (and_then (extract_items_list env all_items) (\<lambda>items_list.
                   and_then (iterate items_list) (\<lambda>items.
                   and_then (find_frame env group_id items) (\<lambda>frame.
                     if \<not> truthy frame then
                       and_then (fstr env [Lit ''Frame '', Val group_id,
                                           Lit '' not found on board '', Val board_id])
                         (\<lambda>m. Inl (Exn ValueError m))
                     else Inr frame))), w2))
           else
             (and_then (fstr env [Lit ''Frame '', Val group_id, Lit '' not found: '',
                                  Lit (exn_str e)])
                (\<lambda>m. Inl (Exn ValueError m)), w1)))"

definition ungroup_shapes ::
  "pyenv \<Rightarrow> MiroClient \<Rightarrow> pyobj \<Rightarrow> pyobj \<Rightarrow> world \<Rightarrow> (exn + pyobj) \<times> world" where
  "ungroup_shapes env c board_id group_id w =
     (case get_api c of
        Inl e \<Rightarrow> (Inl e, w)
      | Inr api \<Rightarrow>
          (case lookup_frame env board_id group_id w of
             (Inl e, w1) \<Rightarrow> (Inl e, w1)
           | (Inr frame, w1) \<Rightarrow>
               (case and_then (convert_to_dict env frame) (\<lambda>frame_dict.
                     and_then (subscript frame_dict ''type'') (\<lambda>ty.
                       if ty \<noteq> PStr ''frame'' then
                         and_then (fstr env [Lit ''Item '', Val group_id,
                                             Lit '' is not a frame/group''])
                           (\<lambda>m. Inl (Exn ValueError m))
                       else Inr ())) of
                  Inl e \<Rightarrow> (Inl e, w1)
                | Inr u \<Rightarrow>
                    (case call_api env (GetItems board_id) w1 of
                       (Inl e, w2) \<Rightarrow> (Inl e, w2)
                     | (Inr all_items, w2) \<Rightarrow>
                         (case and_then (extract_items_list env all_items) (\<lambda>items_list.
                               and_then (iterate items_list) (children_of group_id)) of
                            Inl e \<Rightarrow> (Inl e, w2)
                          | Inr board_items \<Rightarrow>
                              (case unparent_all env board_id board_items w2 of
                                 (Inl e, w3) \<Rightarrow> (Inl e, w3)
                               | (Inr u', w3) \<Rightarrow>
                                   (case call_api env (DeleteFrameItem board_id group_id) w3 of
                                      (Inl e, w4) \<Rightarrow> (Inl e, w4)
                                    | (Inr r, w4) \<Rightarrow>
                                        (case fstr env [Lit ''Ungrouped '',
                                                Val (PInt (int (length board_items))),
                                                Lit '' items''] of
                                           Inl e \<Rightarrow> (Inl e, w4)
                                         | Inr m \<Rightarrow>
                                             (Inr (PDict [(PStr ''success'', PBool True),
                                                          (PStr ''message'', PStr m)]),
                                              w4)))))))))"

section \<open>The tool handlers (tools/*.py)\<close>

text \<open>
  Each module's \<open>handle_tool_call\<close> gets the tool name, the \<open>arguments\<close> value of the
  request and the client. \<open>{'error': str(e)}\<close> is what every \<open>except Exception as e\<close> of
  the handlers returns.
\<close>

definition error_payload :: "string \<Rightarrow> pyobj" where
  "error_payload m = PDict [(PStr ''error'', PStr m)]"

text \<open>A client call inside \<open>try\<close>: an exception becomes the error payload.\<close>

definition guarded :: "(exn + pyobj) \<times> world \<Rightarrow> (pyobj \<Rightarrow> pyobj) \<Rightarrow> (exn + pyobj) \<times> world" where
  "guarded rw wrap = (case rw of
       (Inl e, w) \<Rightarrow> (Inr (error_payload (exn_str e)), w)
     | (Inr r, w) \<Rightarrow> (Inr (wrap r), w))"

subsection \<open>shape\_tools.py\<close>

definition build_style_dict :: "pyenv \<Rightarrow> (pyobj \<times> pyobj) list \<Rightarrow> exn + (pyobj \<times> pyobj) list" where
  "build_style_dict env arguments =
     (let s1 = (if truthy (get arguments ''fillColor'')
                then [(PStr ''fillColor'', get arguments ''fillColor'')] else []);
          s2 = s1 @ (if truthy (get arguments ''borderColor'')
                     then [(PStr ''borderColor'', get arguments ''borderColor'')] else [])
      in if get arguments ''borderWidth'' \<noteq> PNone then
           and_then (to_float env (get arguments ''borderWidth'')) (\<lambda>bw.
             Inr (s2 @ [(PStr ''borderWidth'', PFloat bw)]))
         else Inr s2)"

text \<open>\<open>_build_style_dict(arguments) or None\<close>.\<close>

definition style_or_none :: "pyenv \<Rightarrow> (pyobj \<times> pyobj) list \<Rightarrow> exn + pyobj" where
  "style_or_none env arguments =
     and_then (build_style_dict env arguments) (\<lambda>style.
       Inr (if style = [] then PNone else PDict style))"

text \<open>
  A dictionary with the entries \<open>k1\<close> and \<open>k2\<close> that are not \<open>None\<close> in the arguments, each
  through \<open>float()\<close>; \<open>None\<close> when both are \<open>None\<close>.
\<close>

definition optional_pair ::
  "pyenv \<Rightarrow> (pyobj \<times> pyobj) list \<Rightarrow> string \<Rightarrow> string \<Rightarrow> exn + pyobj" where
  "optional_pair env arguments k1 k2 =
     (if get arguments k1 \<noteq> PNone \<or> get arguments k2 \<noteq> PNone then
        and_then (if get arguments k1 \<noteq> PNone
                  then and_then (to_float env (get arguments k1)) (\<lambda>a. Inr [(PStr k1, PFloat a)])
                  else Inr []) (\<lambda>d1.
        and_then (if get arguments k2 \<noteq> PNone
                  then and_then (to_float env (get arguments k2)) (\<lambda>b. Inr [(PStr k2, PFloat b)])
                  else Inr []) (\<lambda>d2.
          Inr (PDict (d1 @ d2))))
      else Inr PNone)"

definition create_shape_required :: string where
  "create_shape_required = ''board_id, shape_type, x, y, width, and height are required''"

definition handle_create_shape ::
  "pyenv \<Rightarrow> (pyobj \<times> pyobj) list \<Rightarrow> MiroClient \<Rightarrow> world \<Rightarrow> (exn + pyobj) \<times> world" where
  "handle_create_shape env arguments c w =
     (let board_id = get arguments ''board_id'';
          shape_type = get arguments ''shape_type'';
          x = get arguments ''x'';
          y = get arguments ''y'';
          width = get arguments ''width'';
          height = get arguments ''height''
      in if \<not> (truthy board_id \<and> truthy shape_type \<and> x \<noteq> PNone \<and> y \<noteq> PNone \<and>
                 truthy width \<and> truthy height)
         then (Inr (error_payload create_shape_required), w)
         else
           (case and_then (to_float env x) (\<lambda>fx.
                 and_then (to_float env y) (\<lambda>fy.
                 and_then (to_float env width) (\<lambda>fw.
                 and_then (to_float env height) (\<lambda>fh.
                 and_then (style_or_none env arguments) (\<lambda>style.
                   Inr (PDict [(PStr ''x'', PFloat fx), (PStr ''y'', PFloat fy)],
                        PDict [(PStr ''width'', PFloat fw), (PStr ''height'', PFloat fh)],
                        style)))))) of
              Inl e \<Rightarrow> (Inr (error_payload (exn_str e)), w)
            | Inr (position, geometry, style) \<Rightarrow>
                guarded (create_shape env c board_id shape_type position geometry style
                           (get arguments ''content'') w)
                  (\<lambda>result. PDict [(PStr ''success'', PBool True), (PStr ''shape'', result)])))"

definition handle_update_shape ::
  "pyenv \<Rightarrow> (pyobj \<times> pyobj) list \<Rightarrow> MiroClient \<Rightarrow> world \<Rightarrow> (exn + pyobj) \<times> world" where
  "handle_update_shape env arguments c w =
     (let board_id = get arguments ''board_id'';
          item_id = get arguments ''item_id''
      in if \<not> truthy board_id \<or> \<not> truthy item_id
         then (Inr (error_payload ''board_id and item_id are required''), w)
         else
           (case and_then (optional_pair env arguments ''x'' ''y'') (\<lambda>position.
                 and_then (optional_pair env arguments ''width'' ''height'') (\<lambda>geometry.
                   Inr (position, geometry))) of
              Inl e \<Rightarrow> (Inl e, w)
            | Inr (position, geometry) \<Rightarrow>
                (case style_or_none env arguments of
                   Inl e \<Rightarrow> (Inr (error_payload (exn_str e)), w)
                 | Inr style \<Rightarrow>
                     guarded (update_shape env c board_id item_id position geometry style
                                (get arguments ''content'') w)
                       (\<lambda>result. PDict [(PStr ''success'', PBool True),
                                         (PStr ''shape'', result)]))))"

definition handle_delete_shape ::
  "pyenv \<Rightarrow> (pyobj \<times> pyobj) list \<Rightarrow> MiroClient \<Rightarrow> world \<Rightarrow> (exn + pyobj) \<times> world" where
  "handle_delete_shape env arguments c w =
     (let board_id = get arguments ''board_id'';
          item_id = get arguments ''item_id''
      in if \<not> truthy board_id \<or> \<not> truthy item_id
         then (Inr (error_payload ''board_id and item_id are required''), w)
         else guarded (delete_shape env c board_id item_id w)
                (\<lambda>result. PDict [(PStr ''success'', PBool True),
                                  (PStr ''message'', PStr ''Shape deleted successfully'')]))"

text \<open>
  \<open>arguments.get\<close> is the first statement of every branch that reads the arguments: a value
  that is no dictionary raises \<open>AttributeError\<close> there, outside every \<open>try\<close>.
\<close>

definition with_arguments ::
  "pyobj \<Rightarrow> world \<Rightarrow> ((pyobj \<times> pyobj) list \<Rightarrow> (exn + pyobj) \<times> world) \<Rightarrow> (exn + pyobj) \<times> world" where
  "with_arguments arguments w body = (case as_dict arguments of
       Inl e \<Rightarrow> (Inl e, w)
     | Inr kvs \<Rightarrow> body kvs)"

definition shape_tools_handle_tool_call ::
  "pyenv \<Rightarrow> string \<Rightarrow> pyobj \<Rightarrow> MiroClient \<Rightarrow> world \<Rightarrow> (exn + pyobj) \<times> world" where
  "shape_tools_handle_tool_call env tool_name arguments c w =
     (if tool_name = ''create_shape'' then
        with_arguments arguments w (\<lambda>kvs. handle_create_shape env kvs c w)
      else if tool_name = ''update_shape'' then
        with_arguments arguments w (\<lambda>kvs. handle_update_shape env kvs c w)
      else if tool_name = ''delete_shape'' then
        with_arguments arguments w (\<lambda>kvs. handle_delete_shape env kvs c w)
      else (Inr (error_payload (''Unknown shape tool: '' @ tool_name)), w))"

subsection \<open>group\_tools.py\<close>

definition list_length :: "pyobj \<Rightarrow> nat option" where
  "list_length v = (case v of PList xs \<Rightarrow> Some (length xs) | _ \<Rightarrow> None)"

definition handle_group_shapes ::
  "pyenv \<Rightarrow> (pyobj \<times> pyobj) list \<Rightarrow> MiroClient \<Rightarrow> world \<Rightarrow> (exn + pyobj) \<times> world" where
  "handle_group_shapes env arguments c w =
     (let board_id = get arguments ''board_id'';
          item_ids = get arguments ''item_ids''
      in if \<not> truthy board_id
         then (Inr (error_payload ''board_id parameter is required''), w)
         else case list_length item_ids of
           None \<Rightarrow>
             (Inr (error_payload ''item_ids must be a list with at least 2 item IDs''), w)
         | Some n \<Rightarrow>
             (if n < 2
              then (Inr (error_payload ''item_ids must be a list with at least 2 item IDs''), w)
              else
                (case group_shapes env c board_id item_ids w of
                   (Inl e, w1) \<Rightarrow> (Inr (error_payload (exn_str e)), w1)
                 | (Inr result, w1) \<Rightarrow>
                     (case fstr env [Lit ''Successfully grouped '', Val (PInt (int n)),
                                     Lit '' shapes''] of
                        Inl e \<Rightarrow> (Inr (error_payload (exn_str e)), w1)
                      | Inr m \<Rightarrow>
                          (Inr (PDict [(PStr ''success'', PBool True), (PStr ''group'', result),
                                       (PStr ''message'', PStr m)]), w1)))))"

definition handle_ungroup_shapes ::
  "pyenv \<Rightarrow> (pyobj \<times> pyobj) list \<Rightarrow> MiroClient \<Rightarrow> world \<Rightarrow> (exn + pyobj) \<times> world" where
  "handle_ungroup_shapes env arguments c w =
     (let board_id = get arguments ''board_id'';
          group_id = get arguments ''group_id''
      in if \<not> truthy board_id \<or> \<not> truthy group_id
         then (Inr (error_payload ''board_id and group_id are required''), w)
         else
           (case ungroup_shapes env c board_id group_id w of
              (Inl e, w1) \<Rightarrow> (Inr (error_payload (exn_str e)), w1)
            | (Inr result, w1) \<Rightarrow>
                (case as_dict result of
                   Inl e \<Rightarrow> (Inr (error_payload (exn_str e)), w1)
                 | Inr kvs \<Rightarrow>
                     (Inr (PDict [(PStr ''success'', PBool True),
                        (PStr ''message'',
                           get_or kvs ''message'' (PStr ''Shapes ungrouped successfully''))]),
                      w1))))"

definition group_tools_handle_tool_call ::
  "pyenv \<Rightarrow> string \<Rightarrow> pyobj \<Rightarrow> MiroClient \<Rightarrow> world \<Rightarrow> (exn + pyobj) \<times> world" where
  "group_tools_handle_tool_call env tool_name arguments c w =
     (if tool_name = ''group_shapes'' then
        with_arguments arguments w (\<lambda>kvs. handle_group_shapes env kvs c w)
      else if tool_name = ''ungroup_shapes'' then
        with_arguments arguments w (\<lambda>kvs. handle_ungroup_shapes env kvs c w)
      else (Inr (error_payload (''Unknown group tool: '' @ tool_name)), w))"

subsection \<open>board\_tools.py\<close>

definition board_tools_handle_tool_call ::
  "pyenv \<Rightarrow> string \<Rightarrow> pyobj \<Rightarrow> MiroClient \<Rightarrow> world \<Rightarrow> (exn + pyobj) \<times> world" where
  "board_tools_handle_tool_call env tool_name arguments c w =
     (if tool_name = ''get_board'' then
        with_arguments arguments w (\<lambda>kvs.
          (let board_id = get kvs ''board_id''
           in if \<not> truthy board_id then (Inr (error_payload ''board_id is required''), w)
              else guarded (get_board env c board_id w)
                     (\<lambda>result. PDict [(PStr ''success'', PBool True),
                                       (PStr ''board'', result)])))
      else (Inr (error_payload (''Unknown board tool: '' @ tool_name)), w))"

subsection \<open>auth\_tools.py\<close>

text \<open>The two OAuth tools change the client, so the client is returned as well.\<close>

definition auth_tools_handle_tool_call ::
  "pyenv \<Rightarrow> string \<Rightarrow> pyobj \<Rightarrow> MiroClient \<Rightarrow> world \<Rightarrow> (exn + pyobj) \<times> MiroClient \<times> world" where
  "auth_tools_handle_tool_call env tool_name arguments c w =
     (if tool_name = ''get_auth_url'' then
        (case get_auth_url env c w of
           (Inl e, c1, w1) \<Rightarrow> (Inr (error_payload (exn_str e)), c1, w1)
         | (Inr auth_url, c1, w1) \<Rightarrow>
             (Inr (PDict [(PStr ''success'', PBool True), (PStr ''auth_url'', auth_url),
                (PStr ''message'', PStr (''Visit this URL to authorize the application, '' @
                   ''then use exchange_auth_code with the code from the callback''))]),
              c1, w1))
      else if tool_name = ''exchange_auth_code'' then
        (case as_dict arguments of
           Inl e \<Rightarrow> (Inl e, c, w)
         | Inr kvs \<Rightarrow>
             (let code = get kvs ''code''
              in if \<not> truthy code
                 then (Inr (error_payload ''code parameter is required''), c, w)
                 else
                   (case exchange_code_for_token env c code w of
                      (Inl e, c1, w1) \<Rightarrow> (Inr (error_payload (exn_str e)), c1, w1)
                    | (Inr result, c1, w1) \<Rightarrow> (Inr result, c1, w1))))
      else (Inr (error_payload (''Unknown auth tool: '' @ tool_name)), c, w))"

section \<open>The protocol server (server.py)\<close>

text \<open>
  The state of \<open>main\<close>: the variable \<open>miro_client\<close> of the closure \<open>get_miro_client\<close>, and
  the world outside the process.
\<close>

record server =
  miro_client :: "MiroClient option"
  outside :: world

definition handle_initialize :: "pyobj \<Rightarrow> pyobj" where
  "handle_initialize params = PDict
     [(PStr ''protocolVersion'', PStr ''2024-11-05''),
      (PStr ''capabilities'', PDict [(PStr ''tools'', PDict [])]),
      (PStr ''serverInfo'', PDict [(PStr ''name'', PStr ''miro-mcp-server''),
                                   (PStr ''version'', PStr ''1.0.0'')])]"

definition handle_tools_list :: pyobj where
  "handle_tools_list = PDict [(PStr ''tools'', PList (map snd TOOLS))]"

text \<open>Lazy construction of the client; a failed construction leaves the variable unset.\<close>

definition get_miro_client :: "config \<Rightarrow> server \<Rightarrow> (exn + MiroClient) \<times> server" where
  "get_miro_client cfg sv = (case miro_client sv of
       Some c \<Rightarrow> (Inr c, sv)
     | None \<Rightarrow> (case new_client cfg (outside sv) of
         (Inl e, w) \<Rightarrow> (Inl e, sv\<lparr>outside := w\<rparr>)
       | (Inr c, w) \<Rightarrow> (Inr c, sv\<lparr>miro_client := Some c, outside := w\<rparr>)))"

definition text_content :: "string \<Rightarrow> pyobj" where
  "text_content t = PList [PDict [(PStr ''type'', PStr ''text''), (PStr ''text'', PStr t)]]"

definition error_content :: "string \<Rightarrow> pyobj" where
  "error_content t = PDict [(PStr ''content'', text_content t), (PStr ''isError'', PBool True)]"

text \<open>Only hashable values can be looked up in \<open>TOOLS\<close>.\<close>

fun hashable :: "pyobj \<Rightarrow> bool" where
  "hashable (PList xs) = False"
| "hashable (PDict kvs) = False"
| "hashable (PSet xs) = False"
| "hashable (PTuple xs) = list_all hashable xs"
| "hashable v = True"

text \<open>
  The routing of \<open>handle_tools_call\<close> to one handler family, with the client after the call.
  \<open>None\<close> is the final \<open>else\<close>, which returns from inside the \<open>try\<close>.
\<close>

definition route ::
  "pyenv \<Rightarrow> string \<Rightarrow> pyobj \<Rightarrow> MiroClient \<Rightarrow> world
     \<Rightarrow> ((exn + pyobj) \<times> MiroClient \<times> world) option" where
  "route env n arguments c w =
     (if n \<in> set [''create_shape'', ''update_shape'', ''delete_shape''] then
        (case shape_tools_handle_tool_call env n arguments c w of (r, w1) \<Rightarrow> Some (r, c, w1))
      else if n \<in> set [''group_shapes'', ''ungroup_shapes''] then
        (case group_tools_handle_tool_call env n arguments c w of (r, w1) \<Rightarrow> Some (r, c, w1))
      else if startswith n ''get_auth'' \<or> startswith n ''exchange_auth'' then
        Some (auth_tools_handle_tool_call env n arguments c w)
      else if n = ''get_board'' then
        (case board_tools_handle_tool_call env n arguments c w of (r, w1) \<Rightarrow> Some (r, c, w1))
      else None)"

definition executing_error :: "string \<Rightarrow> exn \<Rightarrow> pyobj" where
  "executing_error n e = error_content (''Error executing tool '' @ n @ '': '' @ exn_str e)"

definition handle_tools_call ::
  "pyenv \<Rightarrow> config \<Rightarrow> pyobj \<Rightarrow> pyobj \<Rightarrow> server \<Rightarrow> (exn + pyobj) \<times> server" where
  "handle_tools_call env cfg tool_name arguments sv =
     (if \<not> hashable tool_name then (Inl (Exn TypeError ''unhashable type''), sv)
      else case tool_name of
        PStr n \<Rightarrow>
          (if n \<notin> set (map fst TOOLS) then (Inr (error_content (''Unknown tool: '' @ n)), sv)
           else
             (case get_miro_client cfg sv of
                (Inl e, sv1) \<Rightarrow> (Inr (executing_error n e), sv1)
              | (Inr c, sv1) \<Rightarrow>
                  (case route env n arguments c (outside sv1) of
                     None \<Rightarrow> (Inr (error_content (''No handler for tool: '' @ n)), sv1)
                   | Some (r, c1, w1) \<Rightarrow>
                       (let sv2 = sv1\<lparr>miro_client := Some c1, outside := w1\<rparr>
                        in case and_then r (json_dumps env) of
                             Inl e \<Rightarrow> (Inr (executing_error n e), sv2)
                           | Inr t \<Rightarrow>
                               (Inr (PDict [(PStr ''content'', text_content t)]), sv2)))))
      | _ \<Rightarrow>
          (case fstr env [Lit ''Unknown tool: '', Val tool_name] of
             Inl e \<Rightarrow> (Inl e, sv)
           | Inr m \<Rightarrow> (Inr (error_content m), sv)))"

definition rpc_result :: "pyobj \<Rightarrow> pyobj \<Rightarrow> pyobj" where
  "rpc_result request_id response =
     PDict [(PStr ''jsonrpc'', PStr ''2.0''), (PStr ''id'', request_id),
            (PStr ''result'', response)]"

definition rpc_error :: "pyobj \<Rightarrow> int \<Rightarrow> string \<Rightarrow> pyobj" where
  "rpc_error request_id code message =
     PDict [(PStr ''jsonrpc'', PStr ''2.0''), (PStr ''id'', request_id),
            (PStr ''error'', PDict [(PStr ''code'', PInt code),
                                    (PStr ''message'', PStr message)])]"

text \<open>\<open>process_request\<close> returns the response, or \<open>None\<close> for a request without an id.\<close>

definition answer :: "pyobj \<Rightarrow> pyobj \<Rightarrow> pyobj" where
  "answer request_id response =
     (if request_id \<noteq> PNone then rpc_result request_id response else PNone)"

definition process_request ::
  "pyenv \<Rightarrow> config \<Rightarrow> pyobj \<Rightarrow> server \<Rightarrow> (exn + pyobj) \<times> server" where
  "process_request env cfg request sv = (case as_dict request of
       Inl e \<Rightarrow> (Inl e, sv)
     | Inr kvs \<Rightarrow>
         (let method = get kvs ''method'';
              params = get_or kvs ''params'' (PDict []);
              request_id = get kvs ''id''
          in if method = PStr ''initialize'' then
               (Inr (answer request_id (handle_initialize params)), sv)
             else if method = PStr ''tools/list'' then
               (Inr (answer request_id handle_tools_list), sv)
             else if method = PStr ''tools/call'' then
               (case as_dict params of
                  Inl e \<Rightarrow> (Inl e, sv)
                | Inr ps \<Rightarrow>
                    (case handle_tools_call env cfg (get ps ''name'')
                            (get_or ps ''arguments'' (PDict [])) sv of
                       (Inl e, sv1) \<Rightarrow> (Inl e, sv1)
                     | (Inr response, sv1) \<Rightarrow> (Inr (answer request_id response), sv1)))
             else if request_id \<noteq> PNone then
               (case fstr env [Lit ''Method not found: '', Val method] of
                  Inl e \<Rightarrow> (Inl e, sv)
                | Inr m \<Rightarrow> (Inr (rpc_error request_id (- 32601) m), sv))
             else (Inr PNone, sv)))"

text \<open>
  A line of standard input: its text, and what \<open>json.loads\<close> makes of the stripped text,
  either the message of the \<open>JSONDecodeError\<close> or the decoded value.
\<close>

datatype stdin_line = Line string "string + pyobj"

text \<open>
  The body of the \<open>try\<close> in \<open>main\<close>: the lines printed to standard output (each the value
  given to \<open>json.dumps\<close>), or the exception that leaves the body.
\<close>

definition try_line ::
  "pyenv \<Rightarrow> config \<Rightarrow> string + pyobj \<Rightarrow> server \<Rightarrow> (exn + pyobj list) \<times> server" where
  "try_line env cfg decoded sv = (case decoded of
       Inl m \<Rightarrow> (Inl (Exn JSONDecodeError m), sv)
     | Inr request \<Rightarrow> (case process_request env cfg request sv of
         (Inl e, sv1) \<Rightarrow> (Inl e, sv1)
       | (Inr response, sv1) \<Rightarrow>
           (if truthy response then
              (if json_serializable response then (Inr [response], sv1)
               else (Inl (Exn TypeError ''Object is not JSON serializable''), sv1))
            else (Inr [], sv1))))"

text \<open>
  One turn of the loop. The result is \<open>Inl\<close> when an exception leaves the loop body, which
  ends the process; the two \<open>except\<close> clauses are tried in the order of the source.
\<close>

definition serve_line ::
  "pyenv \<Rightarrow> config \<Rightarrow> server \<Rightarrow> stdin_line \<Rightarrow> exn + (server \<times> pyobj list)" where
  "serve_line env cfg sv line = (case line of Line text decoded \<Rightarrow>
     (if strip text = [] then Inr (sv, [])
      else case try_line env cfg decoded sv of
        (Inr out, sv1) \<Rightarrow> Inr (sv1, out)
      | (Inl e, sv1) \<Rightarrow>
          (if exn_cls e = JSONDecodeError then
             Inr (sv1, [rpc_error PNone (- 32700) (''Parse error: '' @ exn_str e)])
           else if exn_cls e \<in> set [ValueError, KeyError, TypeError, AttributeError,
                                     JSONDecodeError, RuntimeError] then
             Inr (sv1, [rpc_error PNone (- 32603) (''Internal error: '' @ exn_str e)])
           else Inl e)))"

text \<open>\<open>main\<close>: the loop over standard input, from a state without a client.\<close>

fun serve :: "pyenv \<Rightarrow> config \<Rightarrow> server \<Rightarrow> stdin_line list \<Rightarrow> exn + (server \<times> pyobj list)" where
  "serve env cfg sv [] = Inr (sv, [])"
| "serve env cfg sv (line # lns) = (case serve_line env cfg sv line of
       Inl e \<Rightarrow> Inl e
     | Inr (sv1, out1) \<Rightarrow> (case serve env cfg sv1 lns of
         Inl e \<Rightarrow> Inl e
       | Inr (sv2, out2) \<Rightarrow> Inr (sv2, out1 @ out2)))"

definition main :: "pyenv \<Rightarrow> config \<Rightarrow> world \<Rightarrow> stdin_line list \<Rightarrow> exn + (server \<times> pyobj list)" where
  "main env cfg w lns = serve env cfg \<lparr>miro_client = None, outside = w\<rparr> lns"

section \<open>Vocabulary of the properties and example inputs\<close>

text \<open>
  A vendor for examples: a board \<open>b1\<close> with the shapes \<open>s1\<close> and \<open>s2\<close>, returned by the
  SDK as model objects that dump themselves.
\<close>

definition shape_dict :: "string \<Rightarrow> real \<Rightarrow> real \<Rightarrow> real \<Rightarrow> real \<Rightarrow> pyobj" where
  "shape_dict i x y w h = PDict
     [(PStr ''id'', PStr i), (PStr ''type'', PStr ''shape''),
      (PStr ''position'', PDict [(PStr ''x'', PFloat x), (PStr ''y'', PFloat y)]),
      (PStr ''geometry'', PDict [(PStr ''width'', PFloat w), (PStr ''height'', PFloat h)])]"

definition shape_item :: "string \<Rightarrow> real \<Rightarrow> real \<Rightarrow> real \<Rightarrow> real \<Rightarrow> pyobj" where
  "shape_item i x y w h =
     PObject ''<class 'miro_api.models.ShapeItem'>''
       (Some (Some (shape_dict i x y w h), None)) None None"

definition example_vendor :: "api_call list \<Rightarrow> api_call \<Rightarrow> exn + pyobj" where
  "example_vendor before c = (case c of
       HttpGet url authorization \<Rightarrow>
         Inr (PDict [(PStr ''id'', PStr ''b1''), (PStr ''name'', PStr ''Roadmap'')])
     | GetShapeItem board_id item_id \<Rightarrow>
         (if item_id = PStr ''s1'' then Inr (shape_item ''s1'' 0 0 10 10)
          else if item_id = PStr ''s2'' then Inr (shape_item ''s2'' 20 5 10 10)
          else Inl (Exn RuntimeError ''(404) Not Found''))
     | CreateShapeItem board_id shape_data \<Rightarrow> Inr (PDict [(PStr ''id'', PStr ''s3'')])
     | UpdateShapeItem board_id item_id update_data \<Rightarrow> Inr (PDict [(PStr ''id'', item_id)])
     | CreateFrameItem board_id frame_data \<Rightarrow>
         Inr (PDict [(PStr ''id'', PStr ''f1''), (PStr ''type'', PStr ''frame'')])
     | UpdateItemPositionOrParent board_id item_id update \<Rightarrow>
         Inr (PDict [(PStr ''id'', item_id)])
     | _ \<Rightarrow> Inl (Exn RuntimeError ''(404) Not Found''))"

text \<open>
  An environment for examples: \<open>str()\<close> prints a value that is not a string as the text of
  its type, and no string is a number.
\<close>

definition example_env :: pyenv where
  "example_env =
     \<lparr>str_impl = (\<lambda>v. Some (py_type_str v)),
      float_impl = (\<lambda>s. None),
      json_text = (\<lambda>v. ''{}''),
      vendor = example_vendor,
      exchange_impl = (\<lambda>before code. Inl (Exn RuntimeError ''invalid_grant''))\<rparr>"

definition example_config :: config where
  "example_config =
     \<lparr>MIRO_CLIENT_ID = Some ''id'', MIRO_CLIENT_SECRET = Some ''secret'',
      MIRO_REDIRECT_URL = ''http://localhost:8080/callback''\<rparr>"

definition fresh_client :: MiroClient where
  "fresh_client =
     \<lparr>client_id = Some ''id'', client_secret = Some ''secret'',
      redirect_url = ''http://localhost:8080/callback'', miro = None,
      stored_access_token = PNone, stored_refresh_token = PNone\<rparr>"

text \<open>A client after a completed OAuth exchange.\<close>

definition live_client :: MiroClient where
  "live_client =
     fresh_client\<lparr>miro := Some \<lparr>access_token = Some ''tok'', refresh_token = None\<rparr>\<rparr>"

definition empty_world :: world where
  "empty_world = \<lparr>token_storage = Missing, calls = []\<rparr>"

text \<open>The dictionary \<open>_save_tokens\<close> writes for an access and a refresh token.\<close>

definition token_pair :: "string \<Rightarrow> string option \<Rightarrow> pyobj" where
  "token_pair a r = PDict [(PStr ''access_token'', PStr a), (PStr ''refresh_token'', opt_str r)]"

text \<open>The exception of \<open>_get_api\<close> that asks for a new OAuth flow.\<close>

definition reauthentication_required :: exn where
  "reauthentication_required = Exn ValueError
     (''Miro API client requires tokens to be set through OAuth flow. '' @
      ''Please call get_auth_url() and exchange_code_for_token() to re-authenticate.'')"

text \<open>
  \<open>json_ready v\<close>: every key of every mapping in \<open>v\<close> is one that JSON accepts, and where
  \<open>convert_to_dict\<close> returns the result of a dump method as it is, that result is
  serializable. Private attributes and objects that are printed are not looked into.
\<close>

fun json_ready :: "pyobj \<Rightarrow> bool" where
  "json_ready (PDict kvs) = list_all (\<lambda>(k, v). json_key k \<and> json_ready v) kvs"
| "json_ready (PList xs) = list_all json_ready xs"
| "json_ready (PTuple xs) = list_all json_ready xs"
| "json_ready (PSet xs) = list_all json_ready xs"
| "json_ready (PObject ty md dm attrs) =
     (contains ''typing'' ty \<or>
      (case model_dump_result md of
         Some r \<Rightarrow> json_serializable r
       | None \<Rightarrow> (case dict_result dm of
           Some r \<Rightarrow> json_serializable r
         | None \<Rightarrow> (case attrs of
             Some kvs \<Rightarrow> list_all (\<lambda>(k, v). public_attr k \<longrightarrow> json_ready v) kvs
           | None \<Rightarrow> True))))"
| "json_ready v = True"

text \<open>A client whose only credential is a token read from the token file.\<close>

definition cached_client :: "string \<Rightarrow> MiroClient" where
  "cached_client t = fresh_client\<lparr>stored_access_token := PStr t\<rparr>"

text \<open>
  The box of a resolved item, \<open>(x, y, width, height)\<close>, read as \<open>group_shapes\<close> reads it:
  \<open>item['position']['x']\<close> and so on, each a number.
\<close>

definition item_box :: "pyobj \<Rightarrow> exn + (real \<times> real \<times> real \<times> real)" where
  "item_box item =
     and_then (subscript item ''position'') (\<lambda>pos.
     and_then (subscript item ''geometry'') (\<lambda>geom.
     and_then (coordinate pos ''x'') (\<lambda>x.
     and_then (coordinate pos ''y'') (\<lambda>y.
     and_then (coordinate geom ''width'') (\<lambda>width.
     and_then (coordinate geom ''height'') (\<lambda>height.
       Inr (x, y, width, height)))))))"

text \<open>The four edges of a box.\<close>

fun box_left :: "real \<times> real \<times> real \<times> real \<Rightarrow> real" where
  "box_left (x, y, w, h) = x"
fun box_top :: "real \<times> real \<times> real \<times> real \<Rightarrow> real" where
  "box_top (x, y, w, h) = y"
fun box_right :: "real \<times> real \<times> real \<times> real \<Rightarrow> real" where
  "box_right (x, y, w, h) = x + w"
fun box_bottom :: "real \<times> real \<times> real \<times> real \<Rightarrow> real" where
  "box_bottom (x, y, w, h) = y + h"

text \<open>The \<open>frame_data\<close> dictionary for a position and a size.\<close>

definition frame_at :: "real \<Rightarrow> real \<Rightarrow> real \<Rightarrow> real \<Rightarrow> pyobj" where
  "frame_at x y width height = PDict
     [(PStr ''data'', PDict [(PStr ''title'', PStr ''Group'')]),
      (PStr ''position'', PDict [(PStr ''x'', PFloat x), (PStr ''y'', PFloat y)]),
      (PStr ''geometry'', PDict [(PStr ''width'', PFloat width), (PStr ''height'', PFloat height)])]"

text \<open>The frame of the axis-aligned bounding box of a list of boxes.\<close>

definition bounding_frame :: "(real \<times> real \<times> real \<times> real) list \<Rightarrow> pyobj" where
  "bounding_frame boxes =
     frame_at (Min (set (map box_left boxes))) (Min (set (map box_top boxes)))
       (Max (set (map box_right boxes)) - Min (set (map box_left boxes)))
       (Max (set (map box_bottom boxes)) - Min (set (map box_top boxes)))"

text \<open>An entry of a dictionary that is present only under a condition.\<close>

definition section_if :: "bool \<Rightarrow> string \<Rightarrow> pyobj \<Rightarrow> (pyobj \<times> pyobj) list" where
  "section_if b k v = (if b then [(PStr k, v)] else [])"

text \<open>What the shape handlers return when the client call succeeds.\<close>

definition shape_result :: "pyobj \<Rightarrow> pyobj" where
  "shape_result result = PDict [(PStr ''success'', PBool True), (PStr ''shape'', result)]"

text \<open>Arguments of a \<open>create_shape\<close> call, and the two ids of an \<open>update_shape\<close> call.\<close>

definition create_args :: "string \<Rightarrow> int \<Rightarrow> int \<Rightarrow> int \<Rightarrow> int \<Rightarrow> (pyobj \<times> pyobj) list" where
  "create_args board x y width height =
     [(PStr ''board_id'', PStr board), (PStr ''shape_type'', PStr ''circle''),
      (PStr ''x'', PInt x), (PStr ''y'', PInt y),
      (PStr ''width'', PInt width), (PStr ''height'', PInt height)]"

definition update_ids :: "(pyobj \<times> pyobj) list" where
  "update_ids = [(PStr ''board_id'', PStr ''b1''), (PStr ''item_id'', PStr ''s1'')]"

text \<open>The \<open>id\<close> a response carries, and the two error responses that \<open>main\<close> builds itself.\<close>

definition response_id :: "pyobj \<Rightarrow> pyobj" where
  "response_id r = (case r of PDict kvs \<Rightarrow> get kvs ''id'' | _ \<Rightarrow> PNone)"

definition parse_error :: "string \<Rightarrow> pyobj" where
  "parse_error m = rpc_error PNone (- 32700) (''Parse error: '' @ m)"

definition internal_error :: "string \<Rightarrow> pyobj" where
  "internal_error m = rpc_error PNone (- 32603) (''Internal error: '' @ m)"

text \<open>The state in which \<open>main\<close> starts: no client yet.\<close>

definition initial_server :: server where
  "initial_server = \<lparr>miro_client = None, outside = empty_world\<rparr>"

text \<open>The configuration read from an environment without any of the variables.\<close>

definition unconfigured :: config where
  "unconfigured = load_config (\<lambda>name. None)"

text \<open>The exception of \<open>validate_config\<close>: the first required variable that is missing.\<close>

definition missing_variable :: "config \<Rightarrow> exn" where
  "missing_variable cfg = Exn ValueError
     (if unset (MIRO_CLIENT_ID cfg) then ''MIRO_CLIENT_ID environment variable is required''
      else ''MIRO_CLIENT_SECRET environment variable is required'')"

text \<open>Example lines of input, each with what \<open>json.loads\<close> makes of it.\<close>

definition truncated_line :: stdin_line where
  \<open>truncated_line = Line ''{"jsonrpc": "2.0", "method": ''
     (Inl ''Expecting value: line 1 column 30 (char 29)'')\<close>

definition empty_batch :: stdin_line where
  "empty_batch = Line ''[]'' (Inr (PList []))"

definition bare_number :: stdin_line where
  "bare_number = Line ''7'' (Inr (PInt 7))"

definition initialized_notification :: stdin_line where
  \<open>initialized_notification =
     Line ''{"jsonrpc": "2.0", "method": "notifications/initialized"}''
       (Inr (PDict [(PStr ''jsonrpc'', PStr ''2.0''),
                    (PStr ''method'', PStr ''notifications/initialized'')]))\<close>

definition initialize_line :: stdin_line where
  \<open>initialize_line =
     Line ''{"jsonrpc": "2.0", "id": 1, "method": "initialize"}''
       (Inr (PDict [(PStr ''jsonrpc'', PStr ''2.0''), (PStr ''id'', PInt 1),
                    (PStr ''method'', PStr ''initialize'')]))\<close>

definition auth_url_line :: stdin_line where
  \<open>auth_url_line =
     Line ''{"jsonrpc": "2.0", "id": 2, "method": "tools/call", "params": {"name": "get_auth_url"}}''
       (Inr (PDict [(PStr ''jsonrpc'', PStr ''2.0''), (PStr ''id'', PInt 2),
                    (PStr ''method'', PStr ''tools/call''),
                    (PStr ''params'', PDict [(PStr ''name'', PStr ''get_auth_url'')])]))\<close>

section \<open>Verified properties\<close>

subsection \<open>Tool registry\<close>

text \<open>
  C1. The claim: the \<open>required\<close> list of a descriptor names the properties not marked
  optional, so that of \<open>create_shape\<close> holds \<open>board_id\<close>, \<open>shape_type\<close>, \<open>x\<close>, \<open>y\<close>, \<open>width\<close>
  and \<open>height\<close>. \<open>register_tool\<close> reads \<open>v.get('required', False)\<close>: a property is listed
  only when its specification says \<open>'required': True\<close>, which no registration does. The
  list of \<open>create_shape\<close> is empty.
\<close>

theorem create_shape_required_is_empty:
  "map_option schema_required (map_of TOOLS ''create_shape'') = Some (Inr (PList []))"
  by (simp add: TOOLS_def register_tool_def descriptor_def schema_required_def subscript_def
      required_names_def create_shape_parameters_def plain_field_def optional_field_def
      get_or_def)

subsection \<open>Token store\<close>

lemma json_serializable_opt_str: "json_serializable (opt_str r)"
  by (cases r) (simp_all add: opt_str_def)

lemma tokens_to_save_live:
  assumes "miro c = Some h" and "access_token h = Some a" and "a \<noteq> []"
  shows "tokens_to_save c = (PStr a, opt_str (refresh_token h))"
  using assms by (simp add: tokens_to_save_def has_live_token_def opt_str_def)

lemma load_tokens_pair:
  "token_storage w = Holds (token_pair a r) \<Longrightarrow>
   load_tokens c0 w =
     (Inr (), c0\<lparr>stored_access_token := PStr a, stored_refresh_token := opt_str r\<rparr>, w)"
  by (simp add: load_tokens_def token_pair_def subscript_def as_dict_def get_def get_or_def)

text \<open>
  What \<open>_load_tokens\<close> does recover from: no file, text that does not parse, and an object
  without the key \<open>access_token\<close>.
\<close>

lemma load_tokens_recovers:
  "load_tokens c (w\<lparr>token_storage := Missing\<rparr>) = (Inr (), c, w\<lparr>token_storage := Missing\<rparr>)"
  "load_tokens c (w\<lparr>token_storage := Garbled m\<rparr>) =
     (Inr (), forget_tokens c, w\<lparr>token_storage := Missing\<rparr>)"
  "map_of kvs (PStr ''access_token'') = None \<Longrightarrow>
   load_tokens c (w\<lparr>token_storage := Holds (PDict kvs)\<rparr>) =
     (Inr (), forget_tokens c, w\<lparr>token_storage := Missing\<rparr>)"
  by (simp_all add: load_tokens_def subscript_def)

text \<open>
  C5. The claim: on every on-disk state with a parse failure or without the access-token
  field, \<open>_load_tokens\<close> removes the file and no exception escapes. The \<open>except\<close> clause
  names \<open>JSONDecodeError\<close> and \<open>KeyError\<close> only. A file that holds a JSON value other than
  an object, here the array \<open>[]\<close>, has no such field; \<open>tokens['access_token']\<close> raises
  \<open>TypeError\<close>, which escapes, and the file stays.
\<close>

theorem load_tokens_non_object_raises:
  "load_tokens fresh_client \<lparr>token_storage = Holds (PList []), calls = []\<rparr> =
     (Inl (Exn TypeError ''indices must be integers or object is not subscriptable''),
      fresh_client, \<lparr>token_storage = Holds (PList []), calls = []\<rparr>)"
  by (simp add: load_tokens_def subscript_def)

text \<open>
  C9, as amended. For a token pair whose access token is not empty, held by the live
  handle, \<open>_save_tokens\<close> writes the pair and a following \<open>_load_tokens\<close>, of any client,
  stores the same access token and the same optional refresh token.
\<close>

theorem save_then_load_round_trip:
  assumes "miro c = Some h" and "access_token h = Some a" and "a \<noteq> []"
  shows "save_tokens c w =
           (Inr (),
            c\<lparr>stored_access_token := PStr a,
               stored_refresh_token := opt_str (refresh_token h)\<rparr>,
            w\<lparr>token_storage := Holds (token_pair a (refresh_token h))\<rparr>)
       \<and> load_tokens c0 (w\<lparr>token_storage := Holds (token_pair a (refresh_token h))\<rparr>) =
           (Inr (),
            c0\<lparr>stored_access_token := PStr a,
                stored_refresh_token := opt_str (refresh_token h)\<rparr>,
            w\<lparr>token_storage := Holds (token_pair a (refresh_token h))\<rparr>)"
proof -
  have "save_tokens c w =
           (Inr (),
            c\<lparr>stored_access_token := PStr a,
               stored_refresh_token := opt_str (refresh_token h)\<rparr>,
            w\<lparr>token_storage := Holds (token_pair a (refresh_token h))\<rparr>)"
    using assms(3)
    by (simp add: save_tokens_def tokens_to_save_live [OF assms] token_pair_def
        json_serializable_opt_str)
  then show ?thesis by (simp add: load_tokens_pair)
qed

theorem save_then_load_round_trip_witness:
  "save_tokens
     (fresh_client\<lparr>miro := Some \<lparr>access_token = Some ''tok'', refresh_token = Some ''ref''\<rparr>\<rparr>)
     empty_world =
     (Inr (),
      fresh_client\<lparr>miro := Some \<lparr>access_token = Some ''tok'', refresh_token = Some ''ref''\<rparr>,
                   stored_access_token := PStr ''tok'', stored_refresh_token := PStr ''ref''\<rparr>,
      \<lparr>token_storage = Holds (token_pair ''tok'' (Some ''ref'')), calls = []\<rparr>)
   \<and> load_tokens fresh_client
       \<lparr>token_storage = Holds (token_pair ''tok'' (Some ''ref'')), calls = []\<rparr> =
     (Inr (),
      fresh_client\<lparr>stored_access_token := PStr ''tok'', stored_refresh_token := PStr ''ref''\<rparr>,
      \<lparr>token_storage = Holds (token_pair ''tok'' (Some ''ref'')), calls = []\<rparr>)"
  using save_then_load_round_trip
    [of "fresh_client\<lparr>miro := Some \<lparr>access_token = Some ''tok'', refresh_token = Some ''ref''\<rparr>\<rparr>"
        "\<lparr>access_token = Some ''tok'', refresh_token = Some ''ref''\<rparr>" "''tok''"
        empty_world fresh_client]
  by (simp add: opt_str_def empty_world_def)

text \<open>
  C9 as stated fails for a pair with an empty access token: \<open>if access_token:\<close> skips the
  write, the file stays absent and the load stores no token.
\<close>

theorem save_empty_access_token_counterexample:
  "stored_access_token (fst (snd (load_tokens fresh_client (snd (snd (save_tokens
     (fresh_client\<lparr>miro := Some \<lparr>access_token = Some '''', refresh_token = Some ''ref''\<rparr>\<rparr>)
     empty_world)))))) = PNone
   \<and> token_storage (snd (snd (save_tokens
     (fresh_client\<lparr>miro := Some \<lparr>access_token = Some '''', refresh_token = Some ''ref''\<rparr>\<rparr>)
     empty_world))) = Missing"
  by (simp add: save_tokens_def tokens_to_save_def has_live_token_def fresh_client_def
      empty_world_def load_tokens_def)

subsection \<open>Authentication\<close>

lemma get_api_cached_only:
  assumes "miro c = None" and "truthy (stored_access_token c)"
  shows "get_api c = Inl reauthentication_required"
proof -
  have "stored_access_token c \<noteq> PNone" using assms(2) by auto
  then show ?thesis using assms
    by (simp add: get_api_def ensure_authenticated_def is_authenticated_def has_live_token_def
        reauthentication_required_def)
qed

text \<open>
  C4, as amended. A session without a live handle whose cached token is a string that is
  not empty fails \<open>create_shape\<close>, \<open>update_shape\<close>, \<open>delete_shape\<close>, \<open>group_shapes\<close> and
  \<open>ungroup_shapes\<close> with the error that asks for \<open>get_auth_url()\<close> and
  \<open>exchange_code_for_token()\<close>, before any call to the vendor; \<open>get_board\<close> on the same
  session passes the authentication check and is the direct HTTP GET of the board with the
  cached token as bearer, its answer returned through \<open>convert_to_dict\<close>.
\<close>

theorem cached_token_session:
  assumes "miro c = None" and "stored_access_token c = PStr t" and "t \<noteq> []"
  shows "create_shape env c board_id shape_type position geometry style content w
           = (Inl reauthentication_required, w)
       \<and> update_shape env c board_id item_id position geometry style content w
           = (Inl reauthentication_required, w)
       \<and> delete_shape env c board_id item_id w = (Inl reauthentication_required, w)
       \<and> group_shapes env c board_id item_ids w = (Inl reauthentication_required, w)
       \<and> ungroup_shapes env c board_id group_id w = (Inl reauthentication_required, w)
       \<and> get_board env c (PStr b) w
           = call_converted env
               (HttpGet (''https://api.miro.com/v2/boards/'' @ b) (''Bearer '' @ t)) w"
proof -
  have api: "get_api c = Inl reauthentication_required"
    using assms by (simp add: get_api_cached_only)
  have auth: "ensure_authenticated c = Inr ()"
    using assms by (simp add: ensure_authenticated_def is_authenticated_def)
  have tok: "board_token c = Inr (PStr t)"
    using assms by (simp add: board_token_def has_live_token_def)
  have "get_board env c (PStr b) w
          = call_converted env
              (HttpGet (''https://api.miro.com/v2/boards/'' @ b) (''Bearer '' @ t)) w"
    by (simp add: get_board_def auth tok py_str_def)
  then show ?thesis
    by (simp add: api create_shape_def update_shape_def delete_shape_def group_shapes_def
        ungroup_shapes_def)
qed

text \<open>
  The session of the witness is the one \<open>MiroClient()\<close> builds from a token file that holds
  the access token \<open>tok\<close>.
\<close>

theorem cached_token_session_witness:
  "new_client example_config \<lparr>token_storage = Holds (token_pair ''tok'' None), calls = []\<rparr>
     = (Inr (cached_client ''tok''),
        \<lparr>token_storage = Holds (token_pair ''tok'' None), calls = []\<rparr>)
   \<and> create_shape example_env (cached_client ''tok'') (PStr ''b1'') (PStr ''circle'')
       (PDict [(PStr ''x'', PFloat 0), (PStr ''y'', PFloat 0)])
       (PDict [(PStr ''width'', PFloat 10), (PStr ''height'', PFloat 10)]) PNone PNone empty_world
     = (Inl reauthentication_required, empty_world)
   \<and> update_shape example_env (cached_client ''tok'') (PStr ''b1'') (PStr ''s1'')
       (PDict [(PStr ''x'', PFloat 1)]) PNone PNone PNone empty_world
     = (Inl reauthentication_required, empty_world)
   \<and> delete_shape example_env (cached_client ''tok'') (PStr ''b1'') (PStr ''s1'') empty_world
     = (Inl reauthentication_required, empty_world)
   \<and> group_shapes example_env (cached_client ''tok'') (PStr ''b1'')
       (PList [PStr ''s1'', PStr ''s2'']) empty_world
     = (Inl reauthentication_required, empty_world)
   \<and> ungroup_shapes example_env (cached_client ''tok'') (PStr ''b1'') (PStr ''f1'') empty_world
     = (Inl reauthentication_required, empty_world)
   \<and> get_board example_env (cached_client ''tok'') (PStr ''b1'') empty_world
     = (Inr (PDict [(PStr ''id'', PStr ''b1''), (PStr ''name'', PStr ''Roadmap'')]),
        \<lparr>token_storage = Missing,
         calls = [HttpGet ''https://api.miro.com/v2/boards/b1'' ''Bearer tok'']\<rparr>)"
proof -
  have new: "new_client example_config
       \<lparr>token_storage = Holds (token_pair ''tok'' None), calls = []\<rparr>
     = (Inr (cached_client ''tok''),
        \<lparr>token_storage = Holds (token_pair ''tok'' None), calls = []\<rparr>)"
    by (simp add: new_client_def validate_config_def example_config_def unset_def
        load_tokens_pair cached_client_def fresh_client_def opt_str_def)
  have c: "miro (cached_client ''tok'') = None"
    "stored_access_token (cached_client ''tok'') = PStr ''tok''" "''tok'' \<noteq> []"
    by (simp_all add: cached_client_def fresh_client_def)
  have get: "call_converted example_env
       (HttpGet (''https://api.miro.com/v2/boards/'' @ ''b1'') (''Bearer '' @ ''tok'')) empty_world
     = (Inr (PDict [(PStr ''id'', PStr ''b1''), (PStr ''name'', PStr ''Roadmap'')]),
        \<lparr>token_storage = Missing,
         calls = [HttpGet ''https://api.miro.com/v2/boards/b1'' ''Bearer tok'']\<rparr>)"
    by (simp add: call_converted_def call_api_def example_env_def example_vendor_def
        empty_world_def)
  show ?thesis
    using cached_token_session [OF c, where env = example_env and w = empty_world
        and b = "''b1''"] new get
    by simp
qed

text \<open>
  C4 as stated fails when the cached token is the empty string, as read from a token file
  \<open>{"access_token": ""}\<close>: the session counts as authenticated, but the mutating
  operations fail with an error that names no way out, and \<open>get_board\<close> fails as well,
  without a request.
\<close>

theorem empty_cached_token_counterexample:
  "new_client example_config \<lparr>token_storage = Holds (token_pair '''' None), calls = []\<rparr>
     = (Inr (cached_client ''''),
        \<lparr>token_storage = Holds (token_pair '''' None), calls = []\<rparr>)
   \<and> is_authenticated (cached_client '''')
   \<and> create_shape example_env (cached_client '''') (PStr ''b1'') (PStr ''circle'')
       (PDict [(PStr ''x'', PFloat 0), (PStr ''y'', PFloat 0)])
       (PDict [(PStr ''width'', PFloat 10), (PStr ''height'', PFloat 10)]) PNone PNone empty_world
     = (Inl (Exn ValueError ''Not authenticated. Please complete OAuth flow first.''),
        empty_world)
   \<and> get_board example_env (cached_client '''') (PStr ''b1'') empty_world
     = (Inl (Exn ValueError ''No access token available''), empty_world)"
  by (simp add: new_client_def validate_config_def example_config_def unset_def
      load_tokens_pair cached_client_def fresh_client_def opt_str_def is_authenticated_def
      has_live_token_def create_shape_def get_api_def ensure_authenticated_def get_board_def
      board_token_def py_str_def)

subsection \<open>Serializer\<close>

lemma collect_InrD: "collect rs = Inr vs \<Longrightarrow> rs = map Inr vs"
proof (induction rs arbitrary: vs)
  case Nil
  then show ?case by simp
next
  case (Cons r rs)
  then show ?case by (cases r) (auto split: sum.splits)
qed

lemma collect_all_Inr:
  assumes "\<And>x. x \<in> set xs \<Longrightarrow> \<exists>v. f x = Inr v"
  shows "\<exists>vs. collect (map f xs) = Inr vs"
  using assms
proof (induction xs)
  case Nil
  then show ?case by simp
next
  case (Cons x xs)
  then obtain v where "f x = Inr v" by auto
  moreover from Cons obtain vs where "collect (map f xs) = Inr vs" by auto
  ultimately show ?case by simp
qed

lemma collect_Inr_member:
  assumes "collect (map f xs) = Inr ws" and "w \<in> set ws"
  shows "\<exists>x \<in> set xs. f x = Inr w"
proof -
  from assms(1) have "map f xs = map Inr ws" by (rule collect_InrD)
  moreover from assms(2) have "Inr w \<in> set (map Inr ws)" by simp
  ultimately have "Inr w \<in> set (map f xs)" by simp
  then show ?thesis by auto
qed

text \<open>The only exception that can leave \<open>convert_to_dict\<close> is that of \<open>str()\<close> in rule 2.\<close>

lemma convert_to_dict_returns:
  assumes str: "\<And>ty md dm attrs.
    contains ''typing'' ty \<Longrightarrow> str_impl env (PObject ty md dm attrs) \<noteq> None"
  shows "\<exists>r. convert_to_dict env v = Inr r"
proof (induction v)
  case (PObject ty md dm attrs)
  show ?case
  proof (cases "contains ''typing'' ty")
    case True
    with str [of ty md dm attrs] show ?thesis by (auto simp: py_str_def)
  next
    case False
    then show ?thesis by (auto split: option.splits sum.splits)
  qed
next
  case (PDict kvs)
  have "\<exists>vs. collect (map (\<lambda>(k, v). (case convert_to_dict env v of
                 Inl e \<Rightarrow> Inl e | Inr w \<Rightarrow> Inr (k, w))) kvs) = Inr vs"
  proof (rule collect_all_Inr)
    fix x assume "x \<in> set kvs"
    obtain k v where x: "x = (k, v)" by (cases x)
    then have "v \<in> Basic_BNFs.snds x" by simp
    with PDict \<open>x \<in> set kvs\<close> obtain r where "convert_to_dict env v = Inr r" by blast
    with x show "\<exists>w. (case x of (k, v) \<Rightarrow> (case convert_to_dict env v of
                        Inl e \<Rightarrow> Inl e | Inr w \<Rightarrow> Inr (k, w))) = Inr w"
      by simp
  qed
  then show ?case by auto
next
  case (PList xs)
  then have "\<exists>vs. collect (map (convert_to_dict env) xs) = Inr vs"
    by (intro collect_all_Inr) auto
  then show ?case by auto
next
  case (PTuple xs)
  then have "\<exists>vs. collect (map (convert_to_dict env) xs) = Inr vs"
    by (intro collect_all_Inr) auto
  then show ?case by auto
next
  case (PSet xs)
  then have "\<exists>vs. collect (map (convert_to_dict env) xs) = Inr vs"
    by (intro collect_all_Inr) auto
  then show ?case by auto
qed simp_all

lemma sequence_serializable:
  assumes IH: "\<And>x r. x \<in> set xs \<Longrightarrow> json_ready x \<Longrightarrow> convert_to_dict env x = Inr r
                 \<Longrightarrow> json_serializable r"
    and ready: "list_all json_ready xs"
    and conv: "collect (map (convert_to_dict env) xs) = Inr ws"
  shows "list_all json_serializable ws"
  unfolding list_all_iff
proof
  fix w assume "w \<in> set ws"
  with conv obtain x where "x \<in> set xs" "convert_to_dict env x = Inr w"
    using collect_Inr_member by fastforce
  with IH ready show "json_serializable w" by (auto simp: list_all_iff)
qed

lemma convert_to_dict_serializable:
  "json_ready v \<Longrightarrow> convert_to_dict env v = Inr r \<Longrightarrow> json_serializable r"
proof (induction env v arbitrary: r rule: convert_to_dict.induct)
  case (2 env ty md dm attrs)
  show ?case
  proof (cases "contains ''typing'' ty")
    case True
    with "2.prems" show ?thesis by (auto split: sum.splits)
  next
    case False
    note nt = this
    show ?thesis
    proof (cases "model_dump_result md")
      case (Some d)
      with nt "2.prems" show ?thesis by auto
    next
      case None
      note nm = this
      show ?thesis
      proof (cases "dict_result dm")
        case (Some d)
        with nt nm "2.prems" show ?thesis by auto
      next
        case None
        note nd = this
        show ?thesis
        proof (cases attrs)
          case None
          with nt nm nd "2.prems" show ?thesis by (auto split: sum.splits)
        next
          case (Some kvs)
          let ?g = "\<lambda>(k, v). if public_attr k then
                  (case convert_to_dict env v of
                     Inr w \<Rightarrow> [(PStr k, w)]
                   | Inl e \<Rightarrow> (case py_str env v of
                       Inr s \<Rightarrow> [(PStr k, PStr s)]
                     | Inl e' \<Rightarrow> []))
                else []"
          from nt nm nd Some "2.prems"(2) have r: "r = PDict (concat (map ?g kvs))" by simp
          have "list_all (\<lambda>(k, v). json_key k \<and> json_serializable v) (concat (map ?g kvs))"
            unfolding list_all_iff
          proof (intro ballI, clarify)
            fix k' w assume "(k', w) \<in> set (concat (map ?g kvs))"
            then obtain k v where kv: "(k, v) \<in> set kvs" and in_g: "(k', w) \<in> set (?g (k, v))"
              by auto
            show "json_key k' \<and> json_serializable w"
            proof (cases "public_attr k")
              case False
              with in_g show ?thesis by simp
            next
              case True
              from nt nm nd Some "2.prems"(1) kv True have ready: "json_ready v"
                by (auto simp: list_all_iff)
              show ?thesis
              proof (cases "convert_to_dict env v")
                case (Inr w')
                with in_g True have "k' = PStr k" "w = w'" by auto
                moreover have "json_serializable w'"
                  using "2.IH" [OF nt nm nd Some kv refl True ready Inr] .
                ultimately show ?thesis by simp
              next
                case (Inl e)
                with in_g True show ?thesis by (auto split: sum.splits)
              qed
            qed
          qed
          with r show ?thesis by simp
        qed
      qed
    qed
  qed
next
  case (8 env kvs)
  let ?f = "\<lambda>(k, v). (case convert_to_dict env v of Inl e \<Rightarrow> Inl e | Inr w \<Rightarrow> Inr (k, w))"
  from "8.prems"(2) obtain kws where c: "collect (map ?f kvs) = Inr kws" and r: "r = PDict kws"
    by (auto split: sum.splits)
  have "list_all (\<lambda>(k, v). json_key k \<and> json_serializable v) kws"
    unfolding list_all_iff
  proof (intro ballI, clarify)
    fix k' w assume "(k', w) \<in> set kws"
    from collect_Inr_member [OF c this]
    obtain k v where kv: "(k, v) \<in> set kvs" and f: "?f (k, v) = Inr (k', w)"
      by auto
    from f have "k' = k" and conv: "convert_to_dict env v = Inr w" by (auto split: sum.splits)
    moreover from "8.prems"(1) kv have "json_key k" "json_ready v" by (auto simp: list_all_iff)
    moreover have "json_serializable w" using "8.IH" [OF kv refl \<open>json_ready v\<close> conv] .
    ultimately show "json_key k' \<and> json_serializable w" by simp
  qed
  with r show ?case by simp
next
  case (9 env xs)
  from "9.prems"(2) obtain ws
    where c: "collect (map (convert_to_dict env) xs) = Inr ws" and r: "r = PList ws"
    by (auto split: sum.splits)
  from sequence_serializable [OF "9.IH" _ c] "9.prems"(1) r show ?case by simp
next
  case (10 env xs)
  from "10.prems"(2) obtain ws
    where c: "collect (map (convert_to_dict env) xs) = Inr ws" and r: "r = PList ws"
    by (auto split: sum.splits)
  from sequence_serializable [OF "10.IH" _ c] "10.prems"(1) r show ?case by simp
next
  case (11 env xs)
  from "11.prems"(2) obtain ws
    where c: "collect (map (convert_to_dict env) xs) = Inr ws" and r: "r = PList ws"
    by (auto split: sum.splits)
  from sequence_serializable [OF "11.IH" _ c] "11.prems"(1) r show ?case by simp
qed auto

text \<open>
  Where the serializer keeps its promise. \<open>convert_to_dict\<close> returns a value, and raises
  nothing, on every input when \<open>str()\<close> succeeds on the objects whose type text contains
  \<open>typing\<close>. The value returned is JSON-serializable when the input is \<open>json_ready\<close>. Values
  are finite trees here: a cyclic structure, or one nested deeper than the interpreter's
  recursion limit, is outside the model.
\<close>

lemma convert_to_dict_total_and_json_safe:
  "((\<forall>ty md dm attrs. contains ''typing'' ty
        \<longrightarrow> str_impl env (PObject ty md dm attrs) \<noteq> None)
      \<longrightarrow> (\<exists>r. convert_to_dict env v = Inr r))
   \<and> (\<forall>r. json_ready v \<and> convert_to_dict env v = Inr r \<longrightarrow> json_serializable r)"
  using convert_to_dict_returns [of env v] convert_to_dict_serializable [of v env]
  by blast

text \<open>
  An example: a mapping with a date, a set, and an object whose dump methods both raise
  and which has a private attribute.
\<close>

lemma convert_to_dict_total_and_json_safe_example:
  "convert_to_dict example_env (PDict
      [(PStr ''modifiedAt'', PDatetime ''2024-05-01T12:00:00''),
       (PStr ''tags'', PSet [PStr ''draft'']),
       (PStr ''owner'', PObject ''<class 'Owner'>'' (Some (None, None)) (Some None)
          (Some [(''id'', PInt 7), (''_session'', PSet [])])),
       (PStr ''kind'', PObject ''<class 'typing._GenericAlias'>'' None None None)])
     = Inr (PDict
      [(PStr ''modifiedAt'', PStr ''2024-05-01T12:00:00''),
       (PStr ''tags'', PList [PStr ''draft'']),
       (PStr ''owner'', PDict [(PStr ''id'', PInt 7)]),
       (PStr ''kind'', PStr ''<class 'typing._GenericAlias'>'')])
   \<and> json_serializable (PDict
      [(PStr ''modifiedAt'', PStr ''2024-05-01T12:00:00''),
       (PStr ''tags'', PList [PStr ''draft'']),
       (PStr ''owner'', PDict [(PStr ''id'', PInt 7)]),
       (PStr ''kind'', PStr ''<class 'typing._GenericAlias'>'')])"
proof -
  let ?v = "PDict
      [(PStr ''modifiedAt'', PDatetime ''2024-05-01T12:00:00''),
       (PStr ''tags'', PSet [PStr ''draft'']),
       (PStr ''owner'', PObject ''<class 'Owner'>'' (Some (None, None)) (Some None)
          (Some [(''id'', PInt 7), (''_session'', PSet [])])),
       (PStr ''kind'', PObject ''<class 'typing._GenericAlias'>'' None None None)]"
  have str: "\<forall>ty md dm attrs. contains ''typing'' ty
      \<longrightarrow> str_impl example_env (PObject ty md dm attrs) \<noteq> None"
    by (simp add: example_env_def)
  have ready: "json_ready ?v"
    by (simp add: model_dump_result_def dict_result_def public_attr_def startswith_def)
  from convert_to_dict_total_and_json_safe [of example_env ?v] str
  obtain r where r: "convert_to_dict example_env ?v = Inr r" by blast
  with convert_to_dict_total_and_json_safe [of example_env ?v] ready
  have "json_serializable r" by blast
  moreover from r have "r = PDict
      [(PStr ''modifiedAt'', PStr ''2024-05-01T12:00:00''),
       (PStr ''tags'', PList [PStr ''draft'']),
       (PStr ''owner'', PDict [(PStr ''id'', PInt 7)]),
       (PStr ''kind'', PStr ''<class 'typing._GenericAlias'>'')]"
    by (simp add: model_dump_result_def dict_result_def public_attr_def startswith_def
        py_str_def example_env_def)
  ultimately show ?thesis using r by simp
qed

text \<open>
  C3. The claim: \<open>convert_to_dict\<close> is total, it returns a JSON-serializable value on every
  input and never raises. The code misses it in two places. When \<open>model_dump(mode='json')\<close>
  raises, the result of \<open>model_dump()\<close> is returned as it is (and so is that of \<open>dict()\<close>): a
  date in it stays a date, which \<open>json.dumps\<close> rejects, while the same dictionary given to
  \<open>convert_to_dict\<close> has its date converted, and the comment of the function promises
  JSON-serializable dicts. And the \<open>str(obj)\<close> of the \<open>typing\<close> branch stands outside every
  \<open>try\<close>: on an object whose \<open>__str__\<close> raises, \<open>convert_to_dict\<close> raises, while the final
  \<open>str(obj)\<close> of the function is guarded and gives \<open>None\<close>.
\<close>

theorem convert_to_dict_is_not_total:
  "convert_to_dict example_env
      (PObject ''<class 'Board'>''
         (Some (None, Some (PDict [(PStr ''createdAt'', PDatetime ''2024-05-01T12:00:00'')])))
         None None)
     = Inr (PDict [(PStr ''createdAt'', PDatetime ''2024-05-01T12:00:00'')])
   \<and> \<not> json_serializable (PDict [(PStr ''createdAt'', PDatetime ''2024-05-01T12:00:00'')])
   \<and> convert_to_dict example_env (PDict [(PStr ''createdAt'', PDatetime ''2024-05-01T12:00:00'')])
     = Inr (PDict [(PStr ''createdAt'', PStr ''2024-05-01T12:00:00'')])
   \<and> convert_to_dict (example_env\<lparr>str_impl := (\<lambda>v. None)\<rparr>)
        (PObject ''<class 'typing_compat.Marker'>'' None None None)
     = Inl (Exn RuntimeError ''__str__ failed'')
   \<and> convert_to_dict (example_env\<lparr>str_impl := (\<lambda>v. None)\<rparr>)
        (PObject ''<class 'Marker'>'' None None None)
     = Inr PNone"
  by (simp add: model_dump_result_def dict_result_def py_str_def)

subsection \<open>Grouping\<close>

lemma and_then_eq_Inr: "and_then m f = Inr r \<longleftrightarrow> (\<exists>x. m = Inr x \<and> f x = Inr r)"
  by (cases m) simp_all

lemma py_min_Min: "xs \<noteq> [] \<Longrightarrow> py_min xs = Inr (Min (set xs))"
proof (cases xs)
  case Nil
  assume "xs \<noteq> []"
  with Nil show ?thesis by simp
next
  case (Cons a list)
  have "Min (set (a # list)) = fold min list a" by (rule Min.set_eq_fold)
  with Cons show ?thesis by simp
qed

lemma py_max_Max: "xs \<noteq> [] \<Longrightarrow> py_max xs = Inr (Max (set xs))"
proof (cases xs)
  case Nil
  assume "xs \<noteq> []"
  with Nil show ?thesis by simp
next
  case (Cons a list)
  have "Max (set (a # list)) = fold max list a" by (rule Max.set_eq_fold)
  with Cons show ?thesis by simp
qed

lemma boxes_resolved:
  "collect (map item_box items) = Inr boxes \<Longrightarrow>
   \<exists>positions geometries.
     collect (map (\<lambda>item. subscript item ''position'') items) = Inr positions
   \<and> collect (map (\<lambda>item. subscript item ''geometry'') items) = Inr geometries
   \<and> collect (map (\<lambda>pos. coordinate pos ''x'') positions) = Inr (map box_left boxes)
   \<and> collect (map (\<lambda>pos. coordinate pos ''y'') positions) = Inr (map box_top boxes)
   \<and> collect (map (far_edge ''x'' ''width'') (zip positions geometries)) = Inr (map box_right boxes)
   \<and> collect (map (far_edge ''y'' ''height'') (zip positions geometries)) = Inr (map box_bottom boxes)"
proof (induction items arbitrary: boxes)
  case Nil
  then show ?case by simp
next
  case (Cons item items)
  from Cons.prems obtain b bs where b: "item_box item = Inr b"
    and bs: "collect (map item_box items) = Inr bs" and boxes: "boxes = b # bs"
    by (cases "item_box item"; cases "collect (map item_box items)") auto
  obtain x y w h where bx: "b = (x, y, w, h)" by (cases b)
  from b bx obtain pos geom where pg: "subscript item ''position'' = Inr pos"
    "subscript item ''geometry'' = Inr geom"
    "coordinate pos ''x'' = Inr x" "coordinate pos ''y'' = Inr y"
    "coordinate geom ''width'' = Inr w" "coordinate geom ''height'' = Inr h"
    by (auto simp: item_box_def and_then_eq_Inr)
  from Cons.IH [OF bs] obtain positions geometries where IH:
    "collect (map (\<lambda>item. subscript item ''position'') items) = Inr positions"
    "collect (map (\<lambda>item. subscript item ''geometry'') items) = Inr geometries"
    "collect (map (\<lambda>pos. coordinate pos ''x'') positions) = Inr (map box_left bs)"
    "collect (map (\<lambda>pos. coordinate pos ''y'') positions) = Inr (map box_top bs)"
    "collect (map (far_edge ''x'' ''width'') (zip positions geometries)) = Inr (map box_right bs)"
    "collect (map (far_edge ''y'' ''height'') (zip positions geometries)) = Inr (map box_bottom bs)"
    by blast
  have edges: "far_edge ''x'' ''width'' (pos, geom) = Inr (x + w)"
    "far_edge ''y'' ''height'' (pos, geom) = Inr (y + h)"
    using pg by (simp_all add: far_edge_def)
  have "collect (map (\<lambda>item. subscript item ''position'') (item # items)) = Inr (pos # positions)
   \<and> collect (map (\<lambda>item. subscript item ''geometry'') (item # items)) = Inr (geom # geometries)
   \<and> collect (map (\<lambda>pos. coordinate pos ''x'') (pos # positions)) = Inr (map box_left boxes)
   \<and> collect (map (\<lambda>pos. coordinate pos ''y'') (pos # positions)) = Inr (map box_top boxes)
   \<and> collect (map (far_edge ''x'' ''width'') (zip (pos # positions) (geom # geometries)))
       = Inr (map box_right boxes)
   \<and> collect (map (far_edge ''y'' ''height'') (zip (pos # positions) (geom # geometries)))
       = Inr (map box_bottom boxes)"
    using pg IH boxes bx edges by simp
  then show ?case by blast
qed

lemma frame_data_of_bounding_box:
  assumes "collect (map item_box items) = Inr boxes" and "boxes \<noteq> []"
  shows "frame_data_of items = Inr (bounding_frame boxes)"
proof -
  from boxes_resolved [OF assms(1)] obtain positions geometries where r:
    "collect (map (\<lambda>item. subscript item ''position'') items) = Inr positions"
    "collect (map (\<lambda>item. subscript item ''geometry'') items) = Inr geometries"
    "collect (map (\<lambda>pos. coordinate pos ''x'') positions) = Inr (map box_left boxes)"
    "collect (map (\<lambda>pos. coordinate pos ''y'') positions) = Inr (map box_top boxes)"
    "collect (map (far_edge ''x'' ''width'') (zip positions geometries)) = Inr (map box_right boxes)"
    "collect (map (far_edge ''y'' ''height'') (zip positions geometries)) = Inr (map box_bottom boxes)"
    by blast
  from assms(2) show ?thesis
    by (simp add: frame_data_of_def r py_min_Min py_max_Max bounding_frame_def frame_at_def)
qed

lemma calls_call_api: "calls (snd (call_api env c w)) = calls w @ [c]"
  by (simp add: call_api_def)

lemma calls_call_converted: "calls (snd (call_converted env c w)) = calls w @ [c]"
  by (simp add: call_converted_def call_api_def split: sum.splits)

lemma calls_reparent_all:
  "\<exists>rest. calls (snd (reparent_all env board_id parent ids w)) = calls w @ rest"
proof (induction ids arbitrary: w)
  case Nil
  then show ?case by simp
next
  case (Cons i ids)
  let ?c = "UpdateItemPositionOrParent board_id i (PDict [(PStr ''parent'', parent)])"
  obtain r w1 where c: "call_api env ?c w = (r, w1)" by (cases "call_api env ?c w")
  then have w1: "calls w1 = calls w @ [?c]" using calls_call_api [of env ?c w] by simp
  show ?case
  proof (cases r)
    case (Inl e)
    with c w1 show ?thesis by simp
  next
    case (Inr v)
    from Cons.IH [of w1] obtain rest
      where "calls (snd (reparent_all env board_id parent ids w1)) = calls w1 @ rest" by blast
    with c w1 Inr show ?thesis by simp
  qed
qed

text \<open>
  C6. When the ids resolve to items with numeric position and geometry, the \<open>frame_data\<close>
  that \<open>group_shapes\<close> computes, and passes to \<open>create_frame_item\<close> right after the
  lookups, is the axis-aligned bounding box: x the least \<open>x\<close>, y the least \<open>y\<close>, width
  the greatest \<open>x + width\<close> less the least \<open>x\<close>, height the greatest \<open>y + height\<close> less
  the least \<open>y\<close>. Floats are exact reals here.
\<close>

theorem group_shapes_bounding_box:
  assumes api: "get_api c = Inr ()" and ids: "iterate item_ids = Inr ids"
    and items: "resolve_items env board_id ids w = (Inr items, w1)"
    and boxes: "collect (map item_box items) = Inr boxes" and ne: "boxes \<noteq> []"
  shows "frame_data_of items = Inr (bounding_frame boxes)
       \<and> (\<exists>rest. calls (snd (group_shapes env c board_id item_ids w))
             = calls w1 @ CreateFrameItem board_id (bounding_frame boxes) # rest)"
proof -
  have fd: "frame_data_of items = Inr (bounding_frame boxes)"
    using boxes ne by (rule frame_data_of_bounding_box)
  have ine: "items \<noteq> []" using boxes ne by auto
  let ?cf = "CreateFrameItem board_id (bounding_frame boxes)"
  obtain r w2 where cc: "call_converted env ?cf w1 = (r, w2)"
    by (cases "call_converted env ?cf w1")
  then have w2: "calls w2 = calls w1 @ [?cf]" using calls_call_converted [of env ?cf w1] by simp
  have "\<exists>rest. calls (snd (group_shapes env c board_id item_ids w)) = calls w1 @ ?cf # rest"
  proof (cases r)
    case (Inl e)
    with api ids items fd ine cc w2 show ?thesis by (simp add: group_shapes_def)
  next
    case (Inr frame)
    show ?thesis
    proof (cases "subscript frame ''id''")
      case (Inl e)
      with Inr api ids items fd ine cc w2 show ?thesis by (simp add: group_shapes_def)
    next
      case (Inr frame_id)
      from calls_reparent_all [of env board_id "PDict [(PStr ''id'', frame_id)]" ids w2]
      obtain rest where rest: "calls (snd (reparent_all env board_id (PDict [(PStr ''id'', frame_id)]) ids w2)) = calls w2 @ rest"
        by blast
      obtain r3 w3 where rp: "reparent_all env board_id (PDict [(PStr ''id'', frame_id)]) ids w2 = (r3, w3)"
        by (cases "reparent_all env board_id (PDict [(PStr ''id'', frame_id)]) ids w2")
      with rest have "calls w3 = calls w1 @ ?cf # rest" using w2 by simp
      with \<open>r = Inr frame\<close> Inr api ids items fd ine cc rp show ?thesis
        by (cases r3) (simp_all add: group_shapes_def)
    qed
  qed
  with fd show ?thesis by simp
qed


lemma live_client_api: "get_api live_client = Inr ()"
  by (simp add: get_api_def ensure_authenticated_def is_authenticated_def has_live_token_def live_client_def fresh_client_def)

lemma convert_shape_item: "convert_to_dict env (shape_item i x y w h) = Inr (shape_dict i x y w h)"
  by (simp add: shape_item_def model_dump_result_def)

lemma example_get_shape_item: "get_item_from_api example_env (PStr ''b1'') (PStr ''s1'') w = (Inr (shape_item ''s1'' 0 0 10 10), w\<lparr>calls := calls w @ [GetShapeItem (PStr ''b1'') (PStr ''s1'')]\<rparr>)"
  "get_item_from_api example_env (PStr ''b1'') (PStr ''s2'') w = (Inr (shape_item ''s2'' 20 5 10 10), w\<lparr>calls := calls w @ [GetShapeItem (PStr ''b1'') (PStr ''s2'')]\<rparr>)"
  by (simp_all add: get_item_from_api_def call_api_def example_env_def example_vendor_def)

lemma example_resolve_items: "resolve_items example_env (PStr ''b1'') [PStr ''s1'', PStr ''s2''] empty_world
   = (Inr [shape_dict ''s1'' 0 0 10 10, shape_dict ''s2'' 20 5 10 10],
      \<lparr>token_storage = Missing, calls = [GetShapeItem (PStr ''b1'') (PStr ''s1''), GetShapeItem (PStr ''b1'') (PStr ''s2'')]\<rparr>)"
  by (simp add: example_get_shape_item convert_shape_item empty_world_def)

lemma item_box_shape_dict: "item_box (shape_dict i x y w h) = Inr (x, y, w, h)"
  by (simp add: item_box_def shape_dict_def subscript_def coordinate_def num_of_def)

lemma example_bounding_frame: "bounding_frame [(0, 0, 10, 10), (20, 5, 10, 10)] = frame_at 0 0 30 15"
  by (simp add: bounding_frame_def)

text \<open>
  The witness is the example of the claim: items at \<open>(0, 0, 10, 10)\<close> and
  \<open>(20, 5, 10, 10)\<close> give the frame \<open>{x: 0, y: 0, width: 30, height: 15}\<close>.
\<close>

theorem group_shapes_bounding_box_witness:
  "frame_data_of [shape_dict ''s1'' 0 0 10 10, shape_dict ''s2'' 20 5 10 10] = Inr (frame_at 0 0 30 15)
   \<and> calls (snd (group_shapes example_env live_client (PStr ''b1'') (PList [PStr ''s1'', PStr ''s2'']) empty_world))
      = [GetShapeItem (PStr ''b1'') (PStr ''s1''), GetShapeItem (PStr ''b1'') (PStr ''s2''),
         CreateFrameItem (PStr ''b1'') (frame_at 0 0 30 15),
         UpdateItemPositionOrParent (PStr ''b1'') (PStr ''s1'') (PDict [(PStr ''parent'', PDict [(PStr ''id'', PStr ''f1'')])]),
         UpdateItemPositionOrParent (PStr ''b1'') (PStr ''s2'') (PDict [(PStr ''parent'', PDict [(PStr ''id'', PStr ''f1'')])])]"
proof -
  have boxes: "collect (map item_box [shape_dict ''s1'' 0 0 10 10, shape_dict ''s2'' 20 5 10 10]) = Inr [(0, 0, 10, 10), (20, 5, 10, 10)]"
    by (simp add: item_box_shape_dict)
  have it: "iterate (PList [PStr ''s1'', PStr ''s2'']) = Inr [PStr ''s1'', PStr ''s2'']"
    by (simp add: iterate_def)
  from group_shapes_bounding_box [OF live_client_api it example_resolve_items boxes]
  have "frame_data_of [shape_dict ''s1'' 0 0 10 10, shape_dict ''s2'' 20 5 10 10] = Inr (frame_at 0 0 30 15)"
    by (simp add: example_bounding_frame)
  moreover have "call_converted example_env (CreateFrameItem (PStr ''b1'') (frame_at 0 0 30 15)) w
      = (Inr (PDict [(PStr ''id'', PStr ''f1''), (PStr ''type'', PStr ''frame'')]),
         w\<lparr>calls := calls w @ [CreateFrameItem (PStr ''b1'') (frame_at 0 0 30 15)]\<rparr>)" for w
    by (simp add: call_converted_def call_api_def example_env_def example_vendor_def)
  moreover have "call_api example_env (UpdateItemPositionOrParent (PStr ''b1'') i p) w
      = (Inr (PDict [(PStr ''id'', i)]),
         w\<lparr>calls := calls w @ [UpdateItemPositionOrParent (PStr ''b1'') i p]\<rparr>)" for i p w
    by (simp add: call_api_def example_env_def example_vendor_def)
  ultimately have "calls (snd (group_shapes example_env live_client (PStr ''b1'') (PList [PStr ''s1'', PStr ''s2'']) empty_world))
      = [GetShapeItem (PStr ''b1'') (PStr ''s1''), GetShapeItem (PStr ''b1'') (PStr ''s2''),
         CreateFrameItem (PStr ''b1'') (frame_at 0 0 30 15),
         UpdateItemPositionOrParent (PStr ''b1'') (PStr ''s1'') (PDict [(PStr ''parent'', PDict [(PStr ''id'', PStr ''f1'')])]),
         UpdateItemPositionOrParent (PStr ''b1'') (PStr ''s2'') (PDict [(PStr ''parent'', PDict [(PStr ''id'', PStr ''f1'')])])]"
    by (simp add: group_shapes_def live_client_api it example_get_shape_item convert_shape_item subscript_def empty_world_def)
  moreover note \<open>frame_data_of [shape_dict ''s1'' 0 0 10 10, shape_dict ''s2'' 20 5 10 10] = Inr (frame_at 0 0 30 15)\<close>
  ultimately show ?thesis by simp
qed

subsection \<open>Shape tools\<close>

text \<open>
  C10. The \<open>create_shape\<close> handler tests \<open>board_id\<close>, \<open>shape_type\<close>, \<open>width\<close> and
  \<open>height\<close> for truth and \<open>x\<close> and \<open>y\<close> against \<open>None\<close>. A call in which one of the
  first four is false (a width or height of 0, an empty string) or a coordinate is missing
  returns the payload \<open>{'error': 'board_id, shape_type, x, y, width, and height are
  required'}\<close> and leaves the world as it is: the client is not called. Every other call,
  whatever the coordinates, 0 included, goes on to \<open>create_shape\<close> of the client with the
  position \<open>{'x': float(x), 'y': float(y)}\<close>.
\<close>

theorem create_shape_validation:
  "(\<not> (truthy (get args ''board_id'') \<and> truthy (get args ''shape_type'')
        \<and> get args ''x'' \<noteq> PNone \<and> get args ''y'' \<noteq> PNone
        \<and> truthy (get args ''width'') \<and> truthy (get args ''height''))
     \<longrightarrow> shape_tools_handle_tool_call env ''create_shape'' (PDict args) c w
           = (Inr (error_payload create_shape_required), w))
   \<and> (truthy (get args ''board_id'') \<and> truthy (get args ''shape_type'')
        \<and> get args ''x'' \<noteq> PNone \<and> get args ''y'' \<noteq> PNone
        \<and> truthy (get args ''width'') \<and> truthy (get args ''height'')
        \<and> to_float env (get args ''x'') = Inr fx \<and> to_float env (get args ''y'') = Inr fy
        \<and> to_float env (get args ''width'') = Inr fw
        \<and> to_float env (get args ''height'') = Inr fh
        \<and> style_or_none env args = Inr style
     \<longrightarrow> shape_tools_handle_tool_call env ''create_shape'' (PDict args) c w
           = guarded (create_shape env c (get args ''board_id'') (get args ''shape_type'')
                        (PDict [(PStr ''x'', PFloat fx), (PStr ''y'', PFloat fy)])
                        (PDict [(PStr ''width'', PFloat fw), (PStr ''height'', PFloat fh)])
                        style (get args ''content'') w)
               shape_result)"
  by (auto simp add: shape_tools_handle_tool_call_def with_arguments_def as_dict_def
      handle_create_shape_def Let_def shape_result_def [abs_def])

lemma get_create_args:
  "get (create_args b x y w h) ''board_id'' = PStr b"
  "get (create_args b x y w h) ''shape_type'' = PStr ''circle''"
  "get (create_args b x y w h) ''x'' = PInt x"
  "get (create_args b x y w h) ''y'' = PInt y"
  "get (create_args b x y w h) ''width'' = PInt w"
  "get (create_args b x y w h) ''height'' = PInt h"
  "get (create_args b x y w h) ''content'' = PNone"
  "style_or_none env (create_args b x y w h) = Inr PNone"
  by (simp_all add: create_args_def get_def get_or_def style_or_none_def build_style_dict_def)

text \<open>
  The witness calls the handler with a width of 0, with an empty board id, and with
  \<open>x = 0\<close>, \<open>y = 0\<close>.
\<close>

theorem create_shape_validation_witness:
  "shape_tools_handle_tool_call example_env ''create_shape'' (PDict (create_args ''b1'' 5 5 0 50))
      live_client empty_world
     = (Inr (error_payload create_shape_required), empty_world)
   \<and> shape_tools_handle_tool_call example_env ''create_shape'' (PDict (create_args '''' 5 5 100 50))
      live_client empty_world
     = (Inr (error_payload create_shape_required), empty_world)
   \<and> shape_tools_handle_tool_call example_env ''create_shape'' (PDict (create_args ''b1'' 0 0 100 50))
      live_client empty_world
     = (Inr (shape_result (PDict [(PStr ''id'', PStr ''s3'')])),
        \<lparr>token_storage = Missing,
         calls = [CreateShapeItem (PStr ''b1'') (PDict
           [(PStr ''data'', PDict [(PStr ''shape'', PStr ''circle'')]),
            (PStr ''position'', PDict [(PStr ''x'', PFloat 0), (PStr ''y'', PFloat 0)]),
            (PStr ''geometry'', PDict [(PStr ''width'', PFloat 100), (PStr ''height'', PFloat 50)])])]\<rparr>)"
proof -
  have "create_shape example_env live_client (PStr ''b1'') (PStr ''circle'')
          (PDict [(PStr ''x'', PFloat 0), (PStr ''y'', PFloat 0)])
          (PDict [(PStr ''width'', PFloat 100), (PStr ''height'', PFloat 50)]) PNone PNone empty_world
     = (Inr (PDict [(PStr ''id'', PStr ''s3'')]),
        \<lparr>token_storage = Missing,
         calls = [CreateShapeItem (PStr ''b1'') (PDict
           [(PStr ''data'', PDict [(PStr ''shape'', PStr ''circle'')]),
            (PStr ''position'', PDict [(PStr ''x'', PFloat 0), (PStr ''y'', PFloat 0)]),
            (PStr ''geometry'', PDict [(PStr ''width'', PFloat 100), (PStr ''height'', PFloat 50)])])]\<rparr>)"
    by (simp add: create_shape_def live_client_api format_shape_data_def float_at_def subscript_def
        to_float_def call_converted_def call_api_def example_env_def example_vendor_def empty_world_def)
  then show ?thesis
    using create_shape_validation [where args = "create_args ''b1'' 5 5 0 50"
          and env = example_env and c = live_client and w = empty_world]
      create_shape_validation [where args = "create_args '''' 5 5 100 50"
          and env = example_env and c = live_client and w = empty_world]
      create_shape_validation [where args = "create_args ''b1'' 0 0 100 50"
          and env = example_env and c = live_client and w = empty_world
          and fx = 0 and fy = 0 and fw = 100 and fh = 50 and style = PNone]
    by (simp add: get_create_args to_float_def guarded_def)
qed

lemma optional_pair_sections:
  assumes "get args k1 \<noteq> PNone \<longrightarrow> to_float env (get args k1) = Inr a"
    and "get args k2 \<noteq> PNone \<longrightarrow> to_float env (get args k2) = Inr b"
  shows "optional_pair env args k1 k2 =
    Inr (if get args k1 \<noteq> PNone \<or> get args k2 \<noteq> PNone
         then PDict (section_if (get args k1 \<noteq> PNone) k1 (PFloat a)
                     @ section_if (get args k2 \<noteq> PNone) k2 (PFloat b))
         else PNone)"
  using assms by (auto simp: optional_pair_def section_if_def)

lemma position_update_sections:
  "position_update env
     (if p \<or> q then PDict (section_if p ''x'' (PFloat a) @ section_if q ''y'' (PFloat b)) else PNone)
   = Inr (section_if (p \<or> q) ''position''
       (PDict (section_if p ''x'' (PFloat a) @ section_if q ''y'' (PFloat b))))"
  by (cases p; cases q)
     (simp_all add: position_update_def section_if_def py_in_def float_at_def subscript_def to_float_def)

lemma geometry_update_both:
  "geometry_update env (PDict [(PStr ''width'', PFloat a), (PStr ''height'', PFloat b)])
   = Inr [(PStr ''geometry'', PDict [(PStr ''width'', PFloat a), (PStr ''height'', PFloat b)])]"
  "geometry_update env PNone = Inr []"
  by (simp_all add: geometry_update_def float_at_def subscript_def to_float_def)

text \<open>
  C7, as amended. For a client with a live token and a call with \<open>board_id\<close> and
  \<open>item_id\<close>, in which width and height are given both or not at all, the payload of
  \<open>update_shape_item\<close> has: a \<open>position\<close> with exactly the coordinates among \<open>x\<close>, \<open>y\<close>
  that are not \<open>None\<close>, when there is one; a \<open>geometry\<close> when width and height are given;
  a \<open>data.content\<close> when \<open>content\<close> is not \<open>None\<close>; a \<open>style\<close>, as \<open>_format_style\<close>
  makes it, when a style argument is given; and nothing else.
\<close>

theorem update_shape_payload:
  assumes api: "get_api c = Inr ()"
    and ids: "truthy (get args ''board_id'')" "truthy (get args ''item_id'')"
    and x: "get args ''x'' \<noteq> PNone \<longrightarrow> to_float env (get args ''x'') = Inr fx"
    and y: "get args ''y'' \<noteq> PNone \<longrightarrow> to_float env (get args ''y'') = Inr fy"
    and wh: "(get args ''width'' = PNone) = (get args ''height'' = PNone)"
    and w: "get args ''width'' \<noteq> PNone \<longrightarrow> to_float env (get args ''width'') = Inr fw"
    and h: "get args ''height'' \<noteq> PNone \<longrightarrow> to_float env (get args ''height'') = Inr fh"
    and style: "style_or_none env args = Inr style"
    and st: "truthy style \<longrightarrow> format_style env style = Inr st"
  shows "shape_tools_handle_tool_call env ''update_shape'' (PDict args) c wd =
     guarded (call_converted env
        (UpdateShapeItem (get args ''board_id'') (get args ''item_id'')
          (PDict
            (section_if (get args ''x'' \<noteq> PNone \<or> get args ''y'' \<noteq> PNone) ''position''
               (PDict (section_if (get args ''x'' \<noteq> PNone) ''x'' (PFloat fx)
                       @ section_if (get args ''y'' \<noteq> PNone) ''y'' (PFloat fy)))
             @ section_if (get args ''width'' \<noteq> PNone) ''geometry''
                 (PDict [(PStr ''width'', PFloat fw), (PStr ''height'', PFloat fh)])
             @ section_if (get args ''content'' \<noteq> PNone) ''data''
                 (PDict [(PStr ''content'', get args ''content'')])
             @ section_if (truthy style) ''style'' st))) wd)
       shape_result"
proof -
  define P where "P = (if get args ''x'' \<noteq> PNone \<or> get args ''y'' \<noteq> PNone
         then PDict (section_if (get args ''x'' \<noteq> PNone) ''x'' (PFloat fx)
                     @ section_if (get args ''y'' \<noteq> PNone) ''y'' (PFloat fy))
         else PNone)"
  define G where "G = (if get args ''width'' \<noteq> PNone
         then PDict [(PStr ''width'', PFloat fw), (PStr ''height'', PFloat fh)] else PNone)"
  have pos: "optional_pair env args ''x'' ''y'' = Inr P"
    unfolding P_def using x y by (rule optional_pair_sections)
  have geo: "optional_pair env args ''width'' ''height'' = Inr G"
    unfolding G_def using optional_pair_sections [OF w h] wh by (auto simp: section_if_def)
  have pu: "position_update env P
     = Inr (section_if (get args ''x'' \<noteq> PNone \<or> get args ''y'' \<noteq> PNone) ''position''
               (PDict (section_if (get args ''x'' \<noteq> PNone) ''x'' (PFloat fx)
                       @ section_if (get args ''y'' \<noteq> PNone) ''y'' (PFloat fy))))"
    unfolding P_def by (rule position_update_sections)
  have gu: "geometry_update env G
     = Inr (section_if (get args ''width'' \<noteq> PNone) ''geometry''
                 (PDict [(PStr ''width'', PFloat fw), (PStr ''height'', PFloat fh)]))"
    unfolding G_def by (simp add: geometry_update_both section_if_def)
  have ud: "update_data_of env P G style (get args ''content'')
     = Inr (PDict
            (section_if (get args ''x'' \<noteq> PNone \<or> get args ''y'' \<noteq> PNone) ''position''
               (PDict (section_if (get args ''x'' \<noteq> PNone) ''x'' (PFloat fx)
                       @ section_if (get args ''y'' \<noteq> PNone) ''y'' (PFloat fy)))
             @ section_if (get args ''width'' \<noteq> PNone) ''geometry''
                 (PDict [(PStr ''width'', PFloat fw), (PStr ''height'', PFloat fh)])
             @ section_if (get args ''content'' \<noteq> PNone) ''data''
                 (PDict [(PStr ''content'', get args ''content'')])
             @ section_if (truthy style) ''style'' st))"
    unfolding update_data_of_def pu gu
    using st by (simp add: section_if_def)
  show ?thesis
    using ids
    by (simp add: shape_tools_handle_tool_call_def with_arguments_def as_dict_def
        handle_update_shape_def pos geo style update_shape_def api ud
        shape_result_def [abs_def] Let_def)
qed

lemma example_update_call:
  "call_converted example_env (UpdateShapeItem (PStr ''b1'') (PStr ''s1'') d) empty_world
     = (Inr (PDict [(PStr ''id'', PStr ''s1'')]),
        \<lparr>token_storage = Missing, calls = [UpdateShapeItem (PStr ''b1'') (PStr ''s1'') d]\<rparr>)"
  by (simp add: call_converted_def call_api_def example_env_def example_vendor_def empty_world_def)

text \<open>
  The witness: an update of \<open>y\<close> and the content without geometry, and an update of the
  geometry without position.
\<close>

theorem update_shape_payload_witness:
  "shape_tools_handle_tool_call example_env ''update_shape''
      (PDict (update_ids @ [(PStr ''y'', PInt 40), (PStr ''content'', PStr ''done'')]))
      live_client empty_world
     = (Inr (shape_result (PDict [(PStr ''id'', PStr ''s1'')])),
        \<lparr>token_storage = Missing,
         calls = [UpdateShapeItem (PStr ''b1'') (PStr ''s1'') (PDict
           [(PStr ''position'', PDict [(PStr ''y'', PFloat 40)]),
            (PStr ''data'', PDict [(PStr ''content'', PStr ''done'')])])]\<rparr>)
   \<and> shape_tools_handle_tool_call example_env ''update_shape''
      (PDict (update_ids @ [(PStr ''width'', PInt 120), (PStr ''height'', PInt 80)]))
      live_client empty_world
     = (Inr (shape_result (PDict [(PStr ''id'', PStr ''s1'')])),
        \<lparr>token_storage = Missing,
         calls = [UpdateShapeItem (PStr ''b1'') (PStr ''s1'') (PDict
           [(PStr ''geometry'',
               PDict [(PStr ''width'', PFloat 120), (PStr ''height'', PFloat 80)])])]\<rparr>)"
proof -
  let ?a1 = "update_ids @ [(PStr ''y'', PInt 40), (PStr ''content'', PStr ''done'')]"
  let ?a2 = "update_ids @ [(PStr ''width'', PInt 120), (PStr ''height'', PInt 80)]"
  have s1: "style_or_none example_env ?a1 = Inr PNone"
    and s2: "style_or_none example_env ?a2 = Inr PNone"
    by (simp_all add: style_or_none_def build_style_dict_def update_ids_def get_def get_or_def)
  have 1: "shape_tools_handle_tool_call example_env ''update_shape'' (PDict ?a1)
      live_client empty_world
     = (Inr (shape_result (PDict [(PStr ''id'', PStr ''s1'')])),
        \<lparr>token_storage = Missing,
         calls = [UpdateShapeItem (PStr ''b1'') (PStr ''s1'') (PDict
           [(PStr ''position'', PDict [(PStr ''y'', PFloat 40)]),
            (PStr ''data'', PDict [(PStr ''content'', PStr ''done'')])])]\<rparr>)"
    using update_shape_payload [where args = ?a1 and env = example_env and c = live_client
        and wd = empty_world and fy = 40 and style = PNone, OF live_client_api _ _ _ _ _ _ _ s1]
    by (simp add: update_ids_def get_def get_or_def to_float_def section_if_def
        example_update_call guarded_def)
  have 2: "shape_tools_handle_tool_call example_env ''update_shape'' (PDict ?a2)
      live_client empty_world
     = (Inr (shape_result (PDict [(PStr ''id'', PStr ''s1'')])),
        \<lparr>token_storage = Missing,
         calls = [UpdateShapeItem (PStr ''b1'') (PStr ''s1'') (PDict
           [(PStr ''geometry'',
               PDict [(PStr ''width'', PFloat 120), (PStr ''height'', PFloat 80)])])]\<rparr>)"
    using update_shape_payload [where args = ?a2 and env = example_env and c = live_client
        and wd = empty_world and fw = 120 and fh = 80 and style = PNone,
        OF live_client_api _ _ _ _ _ _ _ s2]
    by (simp add: update_ids_def get_def get_or_def to_float_def section_if_def
        example_update_call guarded_def)
  from 1 2 show ?thesis by simp
qed

text \<open>
  C7 as stated fails where the design adds a field: an update that supplies only
  \<open>fillColor\<close> sends a style with \<open>fill_opacity\<close> as well.
\<close>

theorem update_shape_opacity_counterexample:
  "shape_tools_handle_tool_call example_env ''update_shape''
      (PDict (update_ids @ [(PStr ''fillColor'', PStr ''#FF0000'')])) live_client empty_world
     = (Inr (shape_result (PDict [(PStr ''id'', PStr ''s1'')])),
        \<lparr>token_storage = Missing,
         calls = [UpdateShapeItem (PStr ''b1'') (PStr ''s1'') (PDict
           [(PStr ''style'', PDict [(PStr ''fill_color'', PStr ''#FF0000''),
                                    (PStr ''fill_opacity'', PStr ''1.0'')])])]\<rparr>)
   \<and> get (update_ids @ [(PStr ''fillColor'', PStr ''#FF0000'')]) ''fill_opacity'' = PNone"
  by (simp add: shape_tools_handle_tool_call_def with_arguments_def as_dict_def
      handle_update_shape_def update_ids_def get_def get_or_def optional_pair_def
      style_or_none_def build_style_dict_def update_shape_def live_client_api
      update_data_of_def position_update_def geometry_update_def format_style_def
      example_update_call guarded_def shape_result_def)

text \<open>
  Outside the amended claim: width without height. The handler builds
  \<open>{'width': 120.0}\<close>, the client reads \<open>geometry['height']\<close>, and the call ends with the
  payload \<open>{'error': "'height'"}\<close> before any request.
\<close>

theorem update_shape_width_only:
  "shape_tools_handle_tool_call example_env ''update_shape''
      (PDict (update_ids @ [(PStr ''width'', PInt 120)])) live_client empty_world
     = (Inr (error_payload (CHR 0x27 # ''height'' @ [CHR 0x27])), empty_world)"
  by (simp add: shape_tools_handle_tool_call_def with_arguments_def as_dict_def
      handle_update_shape_def update_ids_def get_def get_or_def optional_pair_def
      style_or_none_def build_style_dict_def update_shape_def live_client_api
      update_data_of_def position_update_def geometry_update_def float_at_def subscript_def
      to_float_def guarded_def)

subsection \<open>Protocol server\<close>

lemma response_id_simps:
  "response_id (rpc_result i r) = i"
  "response_id (rpc_error i c m) = i"
  by (simp_all add: response_id_def rpc_result_def rpc_error_def get_def get_or_def)

lemma process_request_id:
  assumes "process_request env cfg request sv = (Inr response, sv1)" and "truthy response"
  shows "response_id response \<noteq> PNone"
proof -
  have ans: "truthy (answer i r) \<Longrightarrow> response_id (answer i r) \<noteq> PNone" for i r
    by (simp add: answer_def response_id_simps split: if_splits)
  from assms show ?thesis
    by (auto simp: process_request_def Let_def ans response_id_simps
        split: sum.splits if_splits prod.splits)
qed

lemma serve_line_cases:
  "serve_line env cfg sv (Line text decoded) =
     (if strip text = [] then Inr (sv, [])
      else case try_line env cfg decoded sv of
        (Inr out, sv1) \<Rightarrow> Inr (sv1, out)
      | (Inl e, sv1) \<Rightarrow>
          (if exn_cls e = JSONDecodeError then Inr (sv1, [parse_error (exn_str e)])
           else Inr (sv1, [internal_error (exn_str e)])))"
proof -
  have known: "exn_cls e \<in> set [ValueError, KeyError, TypeError, AttributeError,
                                  JSONDecodeError, RuntimeError]" for e
    by (cases "exn_cls e") simp_all
  show ?thesis
    unfolding serve_line_def parse_error_def internal_error_def
    by (simp only: known if_True stdin_line.case)
qed

lemma try_line_parse_failure:
  "try_line env cfg (Inl m) sv = (Inl (Exn JSONDecodeError m), sv)"
  by (simp add: try_line_def)

lemma py_str_raises: "py_str env v = Inl e \<Longrightarrow> exn_cls e = RuntimeError"
  by (auto simp: py_str_def split: pyobj.splits option.splits)

lemma as_dict_raises: "as_dict v = Inl e \<Longrightarrow> exn_cls e = AttributeError"
  by (auto simp: as_dict_def split: pyobj.splits)

lemma handle_tools_call_raises:
  assumes "handle_tools_call env cfg tool_name arguments sv = (Inl e, sv1)"
  shows "exn_cls e \<noteq> JSONDecodeError"
proof (cases "hashable tool_name")
  case False
  with assms show ?thesis by (auto simp: handle_tools_call_def)
next
  case True
  show ?thesis
  proof (cases "\<exists>n. tool_name = PStr n")
    case True
    then obtain n where "tool_name = PStr n" by blast
    with assms show ?thesis
      by (auto simp: handle_tools_call_def Let_def split: if_splits prod.splits sum.splits option.splits)
  next
    case False
    with assms \<open>hashable tool_name\<close>
    have "exn_cls e = RuntimeError"
      by (cases tool_name) (auto simp: handle_tools_call_def split: sum.splits dest: py_str_raises)
    then show ?thesis by simp
  qed
qed

lemma process_request_raises:
  assumes "process_request env cfg request sv = (Inl e, sv1)"
  shows "exn_cls e \<noteq> JSONDecodeError"
  using assms
  by (auto simp: process_request_def Let_def
      split: sum.splits if_splits prod.splits
      dest: as_dict_raises py_str_raises handle_tools_call_raises)

lemma try_line_decoded:
  assumes "try_line env cfg (Inr request) sv = (r, sv1)"
  shows "(\<forall>e. r = Inl e \<longrightarrow> exn_cls e \<noteq> JSONDecodeError)
       \<and> (\<forall>out. r = Inr out \<longrightarrow> (\<forall>x \<in> set out. response_id x \<noteq> PNone))"
proof -
  obtain p sv2 where p: "process_request env cfg request sv = (p, sv2)"
    by (cases "process_request env cfg request sv")
  show ?thesis
  proof (cases p)
    case (Inl e)
    with p assms process_request_raises [of env cfg request sv e sv2] show ?thesis
      by (auto simp: try_line_def)
  next
    case (Inr response)
    with p assms process_request_id [of env cfg request sv response sv2] show ?thesis
      by (auto simp: try_line_def split: if_splits)
  qed
qed

lemma process_request_answer:
  assumes "process_request env cfg (PDict kvs) sv = (Inr response, sv1)"
  shows "(get kvs ''id'' = PNone \<longrightarrow> response = PNone)
       \<and> (get kvs ''id'' \<noteq> PNone \<longrightarrow> response_id response = get kvs ''id'')"
  using assms
  by (auto simp: process_request_def Let_def as_dict_def answer_def response_id_simps
      split: sum.splits if_splits prod.splits)

lemma try_line_object:
  assumes "try_line env cfg (Inr (PDict kvs)) sv = (Inr out, sv1)" and "r \<in> set out"
  shows "get kvs ''id'' \<noteq> PNone \<and> response_id r = get kvs ''id''"
proof -
  obtain p sv2 where p: "process_request env cfg (PDict kvs) sv = (p, sv2)"
    by (cases "process_request env cfg (PDict kvs) sv")
  show ?thesis
  proof (cases p)
    case (Inl e)
    with p assms show ?thesis by (simp add: try_line_def)
  next
    case (Inr response)
    with p assms process_request_answer [of env cfg kvs sv response sv2] show ?thesis
      by (cases "get kvs ''id'' = PNone") (auto simp: try_line_def split: if_splits)
  qed
qed

lemma try_line_non_object:
  assumes "try_line env cfg (Inr request) sv = (Inr out, sv1)"
  shows "out = [] \<or> (\<exists>kvs. request = PDict kvs)"
  using assms
  by (cases request) (auto simp: try_line_def process_request_def as_dict_def)

text \<open>
  C8, as amended. A line that is not blank and that \<open>json.loads\<close> rejects is answered
  with the error \<open>-32700\<close> and a null id, and the state is unchanged. The error \<open>-32603\<close>
  has a null id too, and it is the answer to a line that parses to a value that is not an
  object. Every response is one of these two errors or carries the id of its request, which
  is then not null; and a request without an id whose handling raises no exception gets no
  response.
\<close>

theorem response_ids:
  "(strip raw \<noteq> [] \<longrightarrow>
      serve_line env cfg sv (Line raw (Inl m)) = Inr (sv, [parse_error m]))
   \<and> (strip raw \<noteq> [] \<and> as_dict request = Inl e \<longrightarrow>
      serve_line env cfg sv (Line raw (Inr request)) = Inr (sv, [internal_error (exn_str e)]))
   \<and> (\<forall>sv1 out r. serve_line env cfg sv (Line raw decoded) = Inr (sv1, out) \<and> r \<in> set out
       \<longrightarrow> (\<exists>m. decoded = Inl m \<and> r = parse_error m) \<or> (\<exists>m. r = internal_error m)
         \<or> (\<exists>kvs. decoded = Inr (PDict kvs) \<and> get kvs ''id'' \<noteq> PNone
              \<and> response_id r = get kvs ''id''))
   \<and> (\<forall>kvs response sv1. strip raw \<noteq> [] \<and> get kvs ''id'' = PNone
         \<and> process_request env cfg (PDict kvs) sv = (Inr response, sv1)
       \<longrightarrow> serve_line env cfg sv (Line raw (Inr (PDict kvs))) = Inr (sv1, []))"
proof (intro conjI impI allI)
  assume "strip raw \<noteq> []"
  then show "serve_line env cfg sv (Line raw (Inl m)) = Inr (sv, [parse_error m])"
    by (simp add: serve_line_cases try_line_parse_failure)
next
  assume a: "strip raw \<noteq> [] \<and> as_dict request = Inl e"
  then have "exn_cls e \<noteq> JSONDecodeError" by (auto dest: as_dict_raises)
  with a show "serve_line env cfg sv (Line raw (Inr request))
      = Inr (sv, [internal_error (exn_str e)])"
    by (simp add: serve_line_cases try_line_def process_request_def)
next
  fix sv1 out r
  assume a: "serve_line env cfg sv (Line raw decoded) = Inr (sv1, out) \<and> r \<in> set out"
  then have nb: "strip raw \<noteq> []" by (auto simp: serve_line_cases split: if_splits)
  show "(\<exists>m. decoded = Inl m \<and> r = parse_error m) \<or> (\<exists>m. r = internal_error m)
      \<or> (\<exists>kvs. decoded = Inr (PDict kvs) \<and> get kvs ''id'' \<noteq> PNone
           \<and> response_id r = get kvs ''id'')"
  proof (cases decoded)
    case (Inl m)
    with a nb show ?thesis by (auto simp: serve_line_cases try_line_parse_failure)
  next
    case (Inr request)
    obtain t sv2 where t: "try_line env cfg (Inr request) sv = (t, sv2)"
      by (cases "try_line env cfg (Inr request) sv")
    show ?thesis
    proof (cases t)
      case (Inl e)
      with a nb Inr t try_line_decoded [OF t] show ?thesis
        by (auto simp: serve_line_cases)
    next
      case out: (Inr out1)
      with a nb Inr t have o: "out1 = out" "sv2 = sv1" by (auto simp: serve_line_cases)
      with a t out try_line_non_object [of env cfg request sv out sv1]
      obtain kvs where k: "request = PDict kvs" by auto
      with a t out o try_line_object [of env cfg kvs sv out sv1 r] Inr show ?thesis
        by simp
    qed
  qed
next
  fix kvs response sv1
  assume a: "strip raw \<noteq> [] \<and> get kvs ''id'' = PNone
      \<and> process_request env cfg (PDict kvs) sv = (Inr response, sv1)"
  with process_request_answer [of env cfg kvs sv response sv1] have "response = PNone"
    by simp
  with a show "serve_line env cfg sv (Line raw (Inr (PDict kvs))) = Inr (sv1, [])"
    by (simp add: serve_line_cases try_line_def)
qed

lemma tool_names:
  "map fst TOOLS = [''create_shape'', ''update_shape'', ''delete_shape'', ''group_shapes'',
     ''ungroup_shapes'', ''get_auth_url'', ''exchange_auth_code'', ''get_board'']"
  by (simp add: TOOLS_def register_tool_def)

lemma non_blank_examples:
  \<open>strip ''{"jsonrpc": "2.0", "method": '' \<noteq> []\<close>
  \<open>strip ''[]'' \<noteq> []\<close>
  \<open>strip ''{"jsonrpc": "2.0", "id": 1, "method": "initialize"}'' \<noteq> []\<close>
  \<open>strip ''{"jsonrpc": "2.0", "id": 2, "method": "tools/call", "params": {"name": "get_auth_url"}}'' \<noteq> []\<close>
  \<open>strip ''7'' \<noteq> []\<close>
  \<open>strip ''{"jsonrpc": "2.0", "method": "notifications/initialized"}'' \<noteq> []\<close>
  by (simp_all add: strip_def is_space_def)

lemma initialized_notification_handled:
  "process_request example_env example_config
      (PDict [(PStr ''jsonrpc'', PStr ''2.0''),
              (PStr ''method'', PStr ''notifications/initialized'')]) initial_server
     = (Inr PNone, initial_server)"
  by (simp add: process_request_def as_dict_def get_def get_or_def)

text \<open>
  The theorem at four lines: a truncated request, a number, an \<open>initialize\<close> request with
  the id 1, and a notification.
\<close>

theorem response_ids_witness:
  "serve_line example_env example_config initial_server truncated_line
     = Inr (initial_server, [parse_error ''Expecting value: line 1 column 30 (char 29)''])
   \<and> serve_line example_env example_config initial_server bare_number
     = Inr (initial_server, [internal_error ''object has no attribute get''])
   \<and> serve_line example_env example_config initial_server initialize_line
     = Inr (initial_server, [rpc_result (PInt 1) (handle_initialize (PDict []))])
   \<and> response_id (rpc_result (PInt 1) (handle_initialize (PDict []))) = PInt 1
   \<and> serve_line example_env example_config initial_server initialized_notification
     = Inr (initial_server, [])"
proof -
  note t = response_ids [where env = example_env and cfg = example_config
      and sv = initial_server]
  have 1: "serve_line example_env example_config initial_server truncated_line
     = Inr (initial_server, [parse_error ''Expecting value: line 1 column 30 (char 29)''])"
    using t [where m = "''Expecting value: line 1 column 30 (char 29)''",
        THEN conjunct1, rule_format, OF non_blank_examples(1)]
    by (simp add: truncated_line_def)
  have 2: "serve_line example_env example_config initial_server bare_number
     = Inr (initial_server, [internal_error ''object has no attribute get''])"
    using t [where raw = "''7''" and request = "PInt 7"
        and e = "Exn AttributeError ''object has no attribute get''",
        THEN conjunct2, THEN conjunct1]
    by (simp add: bare_number_def non_blank_examples as_dict_def)
  have 3: "serve_line example_env example_config initial_server initialize_line
     = Inr (initial_server, [rpc_result (PInt 1) (handle_initialize (PDict []))])"
    by (simp add: serve_line_cases initialize_line_def non_blank_examples try_line_def
        process_request_def get_def get_or_def as_dict_def answer_def rpc_result_def
        handle_initialize_def)
  have 4: "serve_line example_env example_config initial_server initialized_notification
     = Inr (initial_server, [])"
    using t [THEN conjunct2, THEN conjunct2, THEN conjunct2, rule_format,
        OF conjI [OF non_blank_examples(6)
             conjI [OF _ initialized_notification_handled]]]
    by (simp add: initialized_notification_def get_def get_or_def)
  from 1 2 3 4 show ?thesis by (simp add: response_id_simps)
qed

text \<open>
  C8 as stated fails in its last part: the line \<open>[]\<close> parses, \<open>request.get\<close> raises, and
  the server prints a \<open>-32603\<close> response with a null id, which is not the parse error.
\<close>

theorem internal_error_null_id_counterexample:
  "serve_line example_env example_config initial_server empty_batch
     = Inr (initial_server, [internal_error ''object has no attribute get''])
   \<and> response_id (internal_error ''object has no attribute get'') = PNone
   \<and> (\<forall>m. internal_error ''object has no attribute get'' \<noteq> parse_error m)"
  by (simp add: serve_line_cases empty_batch_def non_blank_examples try_line_def
      process_request_def as_dict_def internal_error_def parse_error_def rpc_error_def
      response_id_simps [unfolded rpc_error_def])

lemma validate_config_unset:
  "unset (MIRO_CLIENT_ID cfg) \<or> unset (MIRO_CLIENT_SECRET cfg) \<Longrightarrow>
   validate_config cfg = Inl (missing_variable cfg)"
  by (auto simp: validate_config_def missing_variable_def)

lemma try_line_length:
  "try_line env cfg decoded sv = (Inr out, sv1) \<Longrightarrow> length out \<le> 1"
  by (auto simp: try_line_def split: sum.splits prod.splits if_splits)

lemma serve_line_returns:
  "\<exists>sv1 out. serve_line env cfg sv line = Inr (sv1, out) \<and> length out \<le> 1"
proof (cases line)
  case (Line raw decoded)
  obtain t sv2 where t: "try_line env cfg decoded sv = (t, sv2)"
    by (cases "try_line env cfg decoded sv")
  show ?thesis
  proof (cases t)
    case (Inl e)
    with Line t show ?thesis by (simp add: serve_line_cases)
  next
    case (Inr out)
    with Line t try_line_length [of env cfg decoded sv out sv2] show ?thesis
      by (simp add: serve_line_cases)
  qed
qed

lemma serve_returns:
  "\<exists>sv1 out. serve env cfg sv lns = Inr (sv1, out) \<and> length out \<le> length lns"
proof (induction lns arbitrary: sv)
  case Nil
  then show ?case by simp
next
  case (Cons line lns)
  from serve_line_returns [of env cfg sv line] obtain sv1 out1
    where 1: "serve_line env cfg sv line = Inr (sv1, out1)" "length out1 \<le> 1" by blast
  from Cons [of sv1] obtain sv2 out2
    where 2: "serve env cfg sv1 lns = Inr (sv2, out2)" "length out2 \<le> length lns" by blast
  from 1 2 show ?case by simp
qed

text \<open>
  C2, as amended. Nothing is validated when the server starts. When the client id or the
  client secret is missing, constructing the client fails with a \<open>ValueError\<close> that names
  the variable; that happens on a call of a registered tool, whose response is the tool
  error \<open>Error executing tool ...\<close>, and the server is left without a client, so the next
  call tries again. No input makes \<open>main\<close> end with an exception, whatever the
  configuration: every line is handled, with at most one response each.
\<close>

theorem configuration_failure_is_not_fatal:
  "((unset (MIRO_CLIENT_ID cfg) \<or> unset (MIRO_CLIENT_SECRET cfg)) \<and> n \<in> set (map fst TOOLS)
      \<longrightarrow> new_client cfg w = (Inl (missing_variable cfg), w)
        \<and> handle_tools_call env cfg (PStr n) arguments \<lparr>miro_client = None, outside = w\<rparr>
            = (Inr (executing_error n (missing_variable cfg)),
               \<lparr>miro_client = None, outside = w\<rparr>))
   \<and> (\<exists>sv out. main env cfg w lns = Inr (sv, out) \<and> length out \<le> length lns)"
proof (intro conjI impI)
  assume a: "(unset (MIRO_CLIENT_ID cfg) \<or> unset (MIRO_CLIENT_SECRET cfg)) \<and> n \<in> set (map fst TOOLS)"
  then have v: "validate_config cfg = Inl (missing_variable cfg)"
    by (simp add: validate_config_unset)
  then show "new_client cfg w = (Inl (missing_variable cfg), w)"
    by (simp add: new_client_def)
  then show "handle_tools_call env cfg (PStr n) arguments \<lparr>miro_client = None, outside = w\<rparr>
            = (Inr (executing_error n (missing_variable cfg)),
               \<lparr>miro_client = None, outside = w\<rparr>)"
    using a by (simp add: handle_tools_call_def get_miro_client_def)
next
  show "\<exists>sv out. main env cfg w lns = Inr (sv, out) \<and> length out \<le> length lns"
    unfolding main_def by (rule serve_returns)
qed

theorem configuration_failure_is_not_fatal_witness:
  "new_client unconfigured empty_world
     = (Inl (Exn ValueError ''MIRO_CLIENT_ID environment variable is required''), empty_world)
   \<and> handle_tools_call example_env unconfigured (PStr ''get_auth_url'') (PDict []) initial_server
     = (Inr (error_content (''Error executing tool get_auth_url: '' @
               ''MIRO_CLIENT_ID environment variable is required'')), initial_server)"
  using configuration_failure_is_not_fatal [where cfg = unconfigured and n = "''get_auth_url''"
      and w = empty_world and env = example_env and arguments = "PDict []", THEN conjunct1]
  by (simp add: tool_names unconfigured_def load_config_def unset_def missing_variable_def
      initial_server_def executing_error_def)

text \<open>
  C2 as stated fails in its first part: with neither variable set the server answers a
  tool call with a tool error and goes on to answer \<open>initialize\<close>.
\<close>

theorem no_fail_fast_counterexample:
  "main example_env unconfigured empty_world [auth_url_line, initialize_line]
     = Inr (initial_server,
        [rpc_result (PInt 2) (error_content (''Error executing tool get_auth_url: '' @
               ''MIRO_CLIENT_ID environment variable is required'')),
         rpc_result (PInt 1) (handle_initialize (PDict []))])"
proof -
  have call: "handle_tools_call example_env unconfigured (PStr ''get_auth_url'') (PDict [])
      initial_server
     = (Inr (error_content (''Error executing tool get_auth_url: '' @
               ''MIRO_CLIENT_ID environment variable is required'')), initial_server)"
    by (simp add: handle_tools_call_def tool_names get_miro_client_def new_client_def
        validate_config_def unconfigured_def load_config_def unset_def initial_server_def
        executing_error_def)
  have 1: "serve_line example_env unconfigured initial_server auth_url_line
     = Inr (initial_server,
        [rpc_result (PInt 2) (error_content (''Error executing tool get_auth_url: '' @
               ''MIRO_CLIENT_ID environment variable is required''))])"
    by (simp add: serve_line_cases auth_url_line_def non_blank_examples try_line_def
        process_request_def get_def get_or_def as_dict_def call answer_def rpc_result_def
        error_content_def text_content_def)
  have 2: "serve_line example_env unconfigured initial_server initialize_line
     = Inr (initial_server, [rpc_result (PInt 1) (handle_initialize (PDict []))])"
    by (simp add: serve_line_cases initialize_line_def non_blank_examples try_line_def
        process_request_def get_def get_or_def as_dict_def answer_def rpc_result_def
        handle_initialize_def)
  show ?thesis
    by (simp add: main_def 1 2 initial_server_def [symmetric])
qed

end
